theory Spec2Isabelle
  imports Complex_Main
begin

section \<open>Python values used by the API\<close>

text \<open>
  The program is \<^verbatim>\<open>src/main.py\<close>: a FastAPI application over two module-level
  dictionaries, \<^verbatim>\<open>users_db\<close> and \<^verbatim>\<open>items_db\<close>. Each endpoint function is
  modelled together with the parameter declarations of its signature (the pydantic body
  classes and the \<^verbatim>\<open>Query\<close> bounds), which the framework checks before it runs the
  body: a request that fails them never reaches the body and is answered with a
  validation error.

  Reading of the Python types: \<^verbatim>\<open>str\<close> is \<^typ>\<open>string\<close>, one \<^typ>\<open>char\<close> standing
  for one character of the Python string; \<^verbatim>\<open>int\<close> is \<^typ>\<open>int\<close>; a \<^verbatim>\<open>float\<close> is read
  as the real number it denotes (the order comparisons of floats agree with those of the
  reals on every finite float; the arithmetic of floats is a parameter, see the section
  on statistics; NaN and the infinities are left out); a \<^verbatim>\<open>datetime\<close> is an abstract clock reading. An attribute of a Python
  object can hold \<^verbatim>\<open>None\<close> whatever its annotation says, so every attribute is an
  \<^typ>\<open>'a option\<close>.
\<close>

type_synonym datetime = nat

datatype error = NotFound | ValidationError | TypeError | AttributeError

subsection \<open>The insertion-ordered dictionary\<close>

text \<open>
  A Python \<^verbatim>\<open>dict\<close> keeps its keys in insertion order. It is an association list:
  \<^verbatim>\<open>d[k] = v\<close> replaces the value in place when \<^verbatim>\<open>k\<close> is a key and appends the
  entry otherwise, \<^verbatim>\<open>del d[k]\<close> removes the entry, \<^verbatim>\<open>d.values()\<close> lists the values
  in key order.
\<close>

definition dict_get :: "('k \<times> 'v) list \<Rightarrow> 'k \<Rightarrow> 'v option" where
  "dict_get d k = map_of d k"

fun dict_set :: "('k \<times> 'v) list \<Rightarrow> 'k \<Rightarrow> 'v \<Rightarrow> ('k \<times> 'v) list" where
  "dict_set [] k v = [(k, v)]"
| "dict_set ((k', v') # d) k v =
     (if k' = k then (k, v) # d else (k', v') # dict_set d k v)"

definition dict_del :: "('k \<times> 'v) list \<Rightarrow> 'k \<Rightarrow> ('k \<times> 'v) list" where
  "dict_del d k = filter (\<lambda>p. fst p \<noteq> k) d"

definition dict_values :: "('k \<times> 'v) list \<Rightarrow> 'v list" where
  "dict_values d = map snd d"

subsection \<open>Slices and substrings\<close>

text \<open>
  \<^verbatim>\<open>xs[i:j]\<close>: a negative index counts from the end, and both indices are clamped to
  the list, so a slice never raises.
\<close>

definition slice :: "'a list \<Rightarrow> int \<Rightarrow> int \<Rightarrow> 'a list" where
  "slice xs i j =
     (let n = int (length xs);
          lo = (if i < 0 then max (i + n) 0 else min i n);
          hi = (if j < 0 then max (j + n) 0 else min j n)
      in take (nat (hi - lo)) (drop (nat lo) xs))"

text \<open>\<^verbatim>\<open>a in b\<close> on two strings: \<^verbatim>\<open>a\<close> occurs in \<^verbatim>\<open>b\<close> at some position.\<close>

fun startswith :: "string \<Rightarrow> string \<Rightarrow> bool" where
  "startswith s [] = True"
| "startswith [] (c # cs) = False"
| "startswith (x # xs) (c # cs) = (x = c \<and> startswith xs cs)"

fun str_in :: "string \<Rightarrow> string \<Rightarrow> bool" where
  "str_in a [] = (a = [])"
| "str_in a (c # cs) = (startswith (c # cs) a \<or> str_in a cs)"

subsection \<open>Results that may raise\<close>

definition and_then :: "error + 'a \<Rightarrow> ('a \<Rightarrow> error + 'b) \<Rightarrow> error + 'b" where
  "and_then r f = (case r of Inl e \<Rightarrow> Inl e | Inr x \<Rightarrow> f x)"

section \<open>Data models\<close>

text \<open>
  \<^verbatim>\<open>class User\<close> and \<^verbatim>\<open>class Item\<close>. The fields \<^verbatim>\<open>id\<close> and \<^verbatim>\<open>created_at\<close> of the
  two classes are \<open>id_u\<close>, \<open>created_at_u\<close> and \<open>id_i\<close>, \<open>created_at_i\<close>.
\<close>

record User =
  id_u :: "string option"
  name :: "string option"
  email :: "string option"
  age :: "int option"
  created_at_u :: "datetime option"

record Item =
  id_i :: "string option"
  title :: "string option"
  description :: "string option"
  price :: "real option"
  quantity :: "int option"
  created_at_i :: "datetime option"

text \<open>
  A field of an update class is \<^verbatim>\<open>Optional[...]\<close> with default \<^verbatim>\<open>None\<close>: a request
  either leaves it out (\<open>Unset\<close>) or gives it, as a value or as an explicit
  \<^verbatim>\<open>null\<close> (\<open>Given None\<close>). pydantic records which fields were given, and
  \<^verbatim>\<open>model_dump(exclude_unset=True)\<close> keeps exactly those.
\<close>

datatype 'a field = Unset | Given "'a option"

record UserUpdate =
  name_upd :: "string field"
  email_upd :: "string field"
  age_upd :: "int field"

record ItemUpdate =
  title_upd :: "string field"
  description_upd :: "string field"
  price_upd :: "real field"
  quantity_upd :: "int field"

subsection \<open>Field constraints\<close>

text \<open>
  The \<^verbatim>\<open>Field(...)\<close> declarations. \<^verbatim>\<open>EmailStr\<close> is checked by a library outside the
  repository: the set of strings it accepts is the parameter \<open>is_email\<close>.
\<close>

definition name_ok :: "string \<Rightarrow> bool" where
  "name_ok s = (1 \<le> length s \<and> length s \<le> 100)"

definition age_ok :: "int \<Rightarrow> bool" where
  "age_ok a = (0 \<le> a \<and> a \<le> 150)"

definition title_ok :: "string \<Rightarrow> bool" where
  "title_ok s = (1 \<le> length s \<and> length s \<le> 200)"

definition price_ok :: "real \<Rightarrow> bool" where
  "price_ok p = (0 < p)"

definition quantity_ok :: "int \<Rightarrow> bool" where
  "quantity_ok q = (0 \<le> q)"

text \<open>A required field: \<^verbatim>\<open>None\<close> is not a value of its type.\<close>

definition required :: "('a \<Rightarrow> bool) \<Rightarrow> 'a option \<Rightarrow> bool" where
  "required ok v = (case v of None \<Rightarrow> False | Some x \<Rightarrow> ok x)"

text \<open>An optional field of an update class: the constraint binds a given value only.\<close>

definition optional :: "('a \<Rightarrow> bool) \<Rightarrow> 'a field \<Rightarrow> bool" where
  "optional ok f = (case f of Unset \<Rightarrow> True | Given None \<Rightarrow> True | Given (Some x) \<Rightarrow> ok x)"

definition User_valid :: "(string \<Rightarrow> bool) \<Rightarrow> User \<Rightarrow> bool" where
  "User_valid is_email u =
     (required name_ok (name u) \<and> required is_email (email u) \<and> required age_ok (age u))"

definition UserUpdate_valid :: "(string \<Rightarrow> bool) \<Rightarrow> UserUpdate \<Rightarrow> bool" where
  "UserUpdate_valid is_email upd =
     (optional name_ok (name_upd upd) \<and> optional is_email (email_upd upd) \<and>
      optional age_ok (age_upd upd))"

definition Item_valid :: "Item \<Rightarrow> bool" where
  "Item_valid it =
     (required title_ok (title it) \<and> required price_ok (price it) \<and>
      required quantity_ok (quantity it))"

definition ItemUpdate_valid :: "ItemUpdate \<Rightarrow> bool" where
  "ItemUpdate_valid upd =
     (optional title_ok (title_upd upd) \<and> optional price_ok (price_upd upd) \<and>
      optional quantity_ok (quantity_upd upd))"

text \<open>
  The loop \<^verbatim>\<open>for field, value in update_data.items(): setattr(stored, field, value)\<close>
  assigns each given field, \<^verbatim>\<open>None\<close> included, and touches no other attribute.
\<close>

definition setattr_given :: "'a field \<Rightarrow> 'a option \<Rightarrow> 'a option" where
  "setattr_given f old = (case f of Unset \<Rightarrow> old | Given v \<Rightarrow> v)"

definition apply_user_update :: "User \<Rightarrow> UserUpdate \<Rightarrow> User" where
  "apply_user_update u upd =
     u\<lparr>name := setattr_given (name_upd upd) (name u),
       email := setattr_given (email_upd upd) (email u),
       age := setattr_given (age_upd upd) (age u)\<rparr>"

definition apply_item_update :: "Item \<Rightarrow> ItemUpdate \<Rightarrow> Item" where
  "apply_item_update it upd =
     it\<lparr>title := setattr_given (title_upd upd) (title it),
        description := setattr_given (description_upd upd) (description it),
        price := setattr_given (price_upd upd) (price it),
        quantity := setattr_given (quantity_upd upd) (quantity it)\<rparr>"

section \<open>User endpoints\<close>

type_synonym users = "(string \<times> User) list"
type_synonym items = "(string \<times> Item) list"

text \<open>
  \<open>create_user\<close>: \<open>new_id\<close> is the value of \<^verbatim>\<open>str(uuid4())\<close> and \<open>now\<close> the value
  of \<^verbatim>\<open>datetime.now()\<close> in this call.
\<close>

definition create_user ::
  "(string \<Rightarrow> bool) \<Rightarrow> string \<Rightarrow> datetime \<Rightarrow> users \<Rightarrow> User \<Rightarrow> error + (User \<times> users)" where
  "create_user is_email new_id now db user =
     (if \<not> User_valid is_email user then Inl ValidationError
      else let user' = user\<lparr>id_u := Some new_id, created_at_u := Some now\<rparr>
           in Inr (user', dict_set db new_id user'))"

definition get_all_users :: "users \<Rightarrow> int \<Rightarrow> int \<Rightarrow> error + User list" where
  "get_all_users db skip limit =
     (if \<not> (0 \<le> skip \<and> 1 \<le> limit \<and> limit \<le> 100) then Inl ValidationError
      else Inr (slice (dict_values db) skip (skip + limit)))"

definition get_user :: "users \<Rightarrow> string \<Rightarrow> error + User" where
  "get_user db user_id =
     (case dict_get db user_id of None \<Rightarrow> Inl NotFound | Some u \<Rightarrow> Inr u)"

definition update_user ::
  "(string \<Rightarrow> bool) \<Rightarrow> users \<Rightarrow> string \<Rightarrow> UserUpdate \<Rightarrow> error + (User \<times> users)" where
  "update_user is_email db user_id user_update =
     (if \<not> UserUpdate_valid is_email user_update then Inl ValidationError
      else case dict_get db user_id of
             None \<Rightarrow> Inl NotFound
           | Some stored_user \<Rightarrow>
               (let stored_user' = apply_user_update stored_user user_update
                in Inr (stored_user', dict_set db user_id stored_user')))"

definition delete_user :: "users \<Rightarrow> string \<Rightarrow> error + users" where
  "delete_user db user_id =
     (case dict_get db user_id of
        None \<Rightarrow> Inl NotFound
      | Some _ \<Rightarrow> Inr (dict_del db user_id))"

text \<open>
  \<open>search_users_by_email\<close>: \<open>lower\<close> is \<^verbatim>\<open>str.lower\<close>, a builtin of the language and a
  parameter here. \<^verbatim>\<open>user.email.lower()\<close> raises \<^verbatim>\<open>AttributeError\<close> on \<^verbatim>\<open>None\<close>, and
  the comprehension visits every user.
\<close>

fun email_matches :: "(string \<Rightarrow> string) \<Rightarrow> string \<Rightarrow> User list \<Rightarrow> error + User list" where
  "email_matches lower q [] = Inr []"
| "email_matches lower q (u # us) =
     (case email u of
        None \<Rightarrow> Inl AttributeError
      | Some e \<Rightarrow>
          and_then (email_matches lower q us)
            (\<lambda>r. Inr (if str_in (lower q) (lower e) then u # r else r)))"

definition search_users_by_email ::
  "(string \<Rightarrow> string) \<Rightarrow> users \<Rightarrow> string \<Rightarrow> error + User list" where
  "search_users_by_email lower db q = email_matches lower q (dict_values db)"

section \<open>Item endpoints\<close>

definition create_item :: "string \<Rightarrow> datetime \<Rightarrow> items \<Rightarrow> Item \<Rightarrow> error + (Item \<times> items)" where
  "create_item new_id now db item =
     (if \<not> Item_valid item then Inl ValidationError
      else let item' = item\<lparr>id_i := Some new_id, created_at_i := Some now\<rparr>
           in Inr (item', dict_set db new_id item'))"

text \<open>
  One price comprehension, \<^verbatim>\<open>[item for item in items_list if keep(item.price)]\<close>:
  comparing \<^verbatim>\<open>None\<close> with a float raises \<^verbatim>\<open>TypeError\<close>.
\<close>

fun price_filter :: "(real \<Rightarrow> bool) \<Rightarrow> Item list \<Rightarrow> error + Item list" where
  "price_filter keep [] = Inr []"
| "price_filter keep (it # its) =
     (case price it of
        None \<Rightarrow> Inl TypeError
      | Some p \<Rightarrow>
          and_then (price_filter keep its) (\<lambda>r. Inr (if keep p then it # r else r)))"

text \<open>The bound of \<^verbatim>\<open>Query(None, ge=0)\<close>.\<close>

definition bound_ok :: "real option \<Rightarrow> bool" where
  "bound_ok b = (case b of None \<Rightarrow> True | Some x \<Rightarrow> 0 \<le> x)"

definition get_all_items ::
  "items \<Rightarrow> int \<Rightarrow> int \<Rightarrow> real option \<Rightarrow> real option \<Rightarrow> error + Item list" where
  "get_all_items db skip limit min_price max_price =
     (if \<not> (0 \<le> skip \<and> 1 \<le> limit \<and> limit \<le> 100 \<and> bound_ok min_price \<and> bound_ok max_price)
      then Inl ValidationError
      else
        and_then
          (case min_price of
             None \<Rightarrow> Inr (dict_values db)
           | Some lo \<Rightarrow> price_filter (\<lambda>p. p \<ge> lo) (dict_values db))
          (\<lambda>items_list.
             and_then
               (case max_price of
                  None \<Rightarrow> Inr items_list
                | Some hi \<Rightarrow> price_filter (\<lambda>p. p \<le> hi) items_list)
               (\<lambda>items_list. Inr (slice items_list skip (skip + limit)))))"

definition get_item :: "items \<Rightarrow> string \<Rightarrow> error + Item" where
  "get_item db item_id =
     (case dict_get db item_id of None \<Rightarrow> Inl NotFound | Some it \<Rightarrow> Inr it)"

definition update_item :: "items \<Rightarrow> string \<Rightarrow> ItemUpdate \<Rightarrow> error + (Item \<times> items)" where
  "update_item db item_id item_update =
     (if \<not> ItemUpdate_valid item_update then Inl ValidationError
      else case dict_get db item_id of
             None \<Rightarrow> Inl NotFound
           | Some stored_item \<Rightarrow>
               (let stored_item' = apply_item_update stored_item item_update
                in Inr (stored_item', dict_set db item_id stored_item')))"

definition delete_item :: "items \<Rightarrow> string \<Rightarrow> error + items" where
  "delete_item db item_id =
     (case dict_get db item_id of
        None \<Rightarrow> Inl NotFound
      | Some _ \<Rightarrow> Inr (dict_del db item_id))"

section \<open>The process: a run of requests\<close>

text \<open>
  \<^verbatim>\<open>reset_database\<close> clears both dictionaries. The two dictionaries are the whole
  state of the process; they start empty. The endpoints \<^verbatim>\<open>root\<close>, \<^verbatim>\<open>health_check\<close>
  and \<^verbatim>\<open>get_statistics\<close> only read the dictionaries and are not requests of the run;
  \<^verbatim>\<open>get_statistics\<close> is a function of the two dictionaries, given below.
\<close>

record app =
  users_db :: users
  items_db :: items
  served :: nat

definition initial :: app where
  "initial = \<lparr>users_db = [], items_db = [], served = 0\<rparr>"

definition reset_database :: "app \<Rightarrow> app" where
  "reset_database st = st\<lparr>users_db := [], items_db := []\<rparr>"

text \<open>
  What lies outside the program: the strings \<^verbatim>\<open>EmailStr\<close> accepts, \<^verbatim>\<open>str.lower\<close>,
  and the values \<^verbatim>\<open>str(uuid4())\<close> and \<^verbatim>\<open>datetime.now()\<close> return while the
  \<open>n\<close>-th request of the process is served.
\<close>

record env =
  is_email_of :: "string \<Rightarrow> bool"
  lower_of :: "string \<Rightarrow> string"
  uuid4 :: "nat \<Rightarrow> string"
  now :: "nat \<Rightarrow> datetime"

datatype request =
    Create_user User
  | Get_all_users int int
  | Get_user string
  | Update_user string UserUpdate
  | Delete_user string
  | Search_users_by_email string
  | Create_item Item
  | Get_all_items int int "real option" "real option"
  | Get_item string
  | Update_item string ItemUpdate
  | Delete_item string
  | Reset_database

datatype reply =
    User_reply User
  | Users_reply "User list"
  | Item_reply Item
  | Items_reply "Item list"
  | No_content
  | Reset_done

text \<open>
  An endpoint that raises leaves the dictionaries as they were: every \<^verbatim>\<open>raise\<close> of the
  source comes before the first assignment of its function.
\<close>

definition on_users ::
  "app \<Rightarrow> error + (User \<times> users) \<Rightarrow> (error + reply) \<times> app" where
  "on_users st r =
     (case r of Inl e \<Rightarrow> (Inl e, st) | Inr (u, db) \<Rightarrow> (Inr (User_reply u), st\<lparr>users_db := db\<rparr>))"

definition on_items ::
  "app \<Rightarrow> error + (Item \<times> items) \<Rightarrow> (error + reply) \<times> app" where
  "on_items st r =
     (case r of Inl e \<Rightarrow> (Inl e, st) | Inr (it, db) \<Rightarrow> (Inr (Item_reply it), st\<lparr>items_db := db\<rparr>))"

definition reading :: "app \<Rightarrow> ('a \<Rightarrow> reply) \<Rightarrow> error + 'a \<Rightarrow> (error + reply) \<times> app" where
  "reading st wrap r = (case r of Inl e \<Rightarrow> (Inl e, st) | Inr x \<Rightarrow> (Inr (wrap x), st))"

fun handle :: "env \<Rightarrow> request \<Rightarrow> app \<Rightarrow> (error + reply) \<times> app" where
  "handle E (Create_user user) st =
     on_users st (create_user (is_email_of E) (uuid4 E (served st)) (now E (served st)) (users_db st) user)"
| "handle E (Get_all_users skip limit) st =
     reading st Users_reply (get_all_users (users_db st) skip limit)"
| "handle E (Get_user k) st = reading st User_reply (get_user (users_db st) k)"
| "handle E (Update_user k upd) st =
     on_users st (update_user (is_email_of E) (users_db st) k upd)"
| "handle E (Delete_user k) st =
     (case delete_user (users_db st) k of
        Inl e \<Rightarrow> (Inl e, st)
      | Inr db \<Rightarrow> (Inr No_content, st\<lparr>users_db := db\<rparr>))"
| "handle E (Search_users_by_email q) st =
     reading st Users_reply (search_users_by_email (lower_of E) (users_db st) q)"
| "handle E (Create_item item) st =
     on_items st (create_item (uuid4 E (served st)) (now E (served st)) (items_db st) item)"
| "handle E (Get_all_items skip limit lo hi) st =
     reading st Items_reply (get_all_items (items_db st) skip limit lo hi)"
| "handle E (Get_item k) st = reading st Item_reply (get_item (items_db st) k)"
| "handle E (Update_item k upd) st = on_items st (update_item (items_db st) k upd)"
| "handle E (Delete_item k) st =
     (case delete_item (items_db st) k of
        Inl e \<Rightarrow> (Inl e, st)
      | Inr db \<Rightarrow> (Inr No_content, st\<lparr>items_db := db\<rparr>))"
| "handle E Reset_database st = (Inr Reset_done, reset_database st)"

text \<open>Serving one request: the handler runs, and the request counter advances.\<close>

definition serve :: "env \<Rightarrow> request \<Rightarrow> app \<Rightarrow> (error + reply) \<times> app" where
  "serve E req st = (case handle E req st of (r, st') \<Rightarrow> (r, st'\<lparr>served := Suc (served st)\<rparr>))"

fun run :: "env \<Rightarrow> request list \<Rightarrow> app \<Rightarrow> (error + reply) list \<times> app" where
  "run E [] st = ([], st)"
| "run E (req # reqs) st =
     (case serve E req st of (r, st') \<Rightarrow> (case run E reqs st' of (rs, st'') \<Rightarrow> (r # rs, st'')))"



section \<open>Statistics\<close>

text \<open>
  \<^verbatim>\<open>get_statistics\<close> adds, multiplies, divides and rounds floats. These operations of
  the language are parameters: \<open>fadd\<close> is the sum of two floats (the \<^verbatim>\<open>int\<close> \<open>0\<close>
  that \<^verbatim>\<open>sum\<close> starts from is read as the float 0), \<open>fmul_int\<close> the product of a
  float and an \<^verbatim>\<open>int\<close>, \<open>fdiv_int\<close> the quotient of a float by an \<^verbatim>\<open>int\<close>, and
  \<open>round2\<close> is \<^verbatim>\<open>round(x, 2)\<close> on a float. An \<^verbatim>\<open>int\<close> beyond the range of the
  floats, whose conversion raises, is left out with the infinities.
\<close>

record float_ops =
  fadd :: "real \<Rightarrow> real \<Rightarrow> real"
  fmul_int :: "real \<Rightarrow> int \<Rightarrow> real"
  fdiv_int :: "real \<Rightarrow> int \<Rightarrow> real"
  round2 :: "real \<Rightarrow> real"

text \<open>
  \<^verbatim>\<open>sum(...)\<close> starts from the \<^verbatim>\<open>int\<close> \<open>0\<close> and adds from left to right; over no
  element it is that \<open>0\<close>, which \<^verbatim>\<open>round\<close> returns as it is.
\<close>

definition py_sum :: "float_ops \<Rightarrow> real list \<Rightarrow> real" where
  "py_sum ops xs = foldl (fadd ops) 0 xs"

definition round_sum :: "float_ops \<Rightarrow> real list \<Rightarrow> real" where
  "round_sum ops xs = (if xs = [] then 0 else round2 ops (py_sum ops xs))"

text \<open>
  The generator \<^verbatim>\<open>item.price * item.quantity for item in items_db.values()\<close>: a product
  with \<^verbatim>\<open>None\<close> raises \<^verbatim>\<open>TypeError\<close>. The generator \<^verbatim>\<open>item.price for item in ...\<close>
  raises nothing itself; \<^verbatim>\<open>sum\<close> raises \<^verbatim>\<open>TypeError\<close> when it adds \<^verbatim>\<open>None\<close>.
\<close>

fun inventory_values :: "float_ops \<Rightarrow> Item list \<Rightarrow> error + real list" where
  "inventory_values ops [] = Inr []"
| "inventory_values ops (it # its) =
     (case price it of
        None \<Rightarrow> Inl TypeError
      | Some p \<Rightarrow>
          (case quantity it of
             None \<Rightarrow> Inl TypeError
           | Some q \<Rightarrow> and_then (inventory_values ops its) (\<lambda>r. Inr (fmul_int ops p q # r))))"

fun item_prices :: "Item list \<Rightarrow> error + real list" where
  "item_prices [] = Inr []"
| "item_prices (it # its) =
     (case price it of
        None \<Rightarrow> Inl TypeError
      | Some p \<Rightarrow> and_then (item_prices its) (\<lambda>r. Inr (p # r)))"

record summary =
  users_total :: nat
  items_total :: nat
  total_inventory_value :: real
  average_price :: real
  timestamp :: datetime

definition get_statistics ::
  "float_ops \<Rightarrow> datetime \<Rightarrow> users \<Rightarrow> items \<Rightarrow> error + summary" where
  "get_statistics ops t udb idb =
     (let total_users = length udb; total_items = length idb in
      and_then (inventory_values ops (dict_values idb))
        (\<lambda>values.
           and_then
             (if total_items > 0
              then and_then (item_prices (dict_values idb))
                     (\<lambda>prices. Inr (round2 ops (fdiv_int ops (py_sum ops prices) (int total_items))))
              else Inr 0)
             (\<lambda>average.
                Inr \<lparr>users_total = total_users, items_total = total_items,
                     total_inventory_value = round_sum ops values,
                     average_price = average, timestamp = t\<rparr>)))"

section \<open>The identifier generator\<close>






section \<open>Objects and references\<close>

text \<open>
  \<^verbatim>\<open>items_db\<close> holds references to \<^verbatim>\<open>Item\<close> objects, and \<^verbatim>\<open>get_item\<close> and
  \<^verbatim>\<open>update_item\<close> return the reference the dictionary holds. Where the identity of an
  object matters the store is a heap of objects and a dictionary of references.
  \<^verbatim>\<open>update_item\<close> runs \<^verbatim>\<open>setattr\<close> on the object it read from the dictionary and
  assigns the same reference back under the same key.
\<close>

type_synonym ref = nat

record item_store =
  objects :: "ref \<Rightarrow> Item"
  items_refs :: "(string \<times> ref) list"

definition get_item_ref :: "item_store \<Rightarrow> string \<Rightarrow> error + ref" where
  "get_item_ref s item_id =
     (case dict_get (items_refs s) item_id of None \<Rightarrow> Inl NotFound | Some r \<Rightarrow> Inr r)"

definition update_item_ref ::
  "item_store \<Rightarrow> string \<Rightarrow> ItemUpdate \<Rightarrow> error + (ref \<times> item_store)" where
  "update_item_ref s item_id item_update =
     (if \<not> ItemUpdate_valid item_update then Inl ValidationError
      else case dict_get (items_refs s) item_id of
             None \<Rightarrow> Inl NotFound
           | Some stored_item \<Rightarrow>
               Inr (stored_item,
                    s\<lparr>objects := (objects s)
                         (stored_item := apply_item_update (objects s stored_item) item_update),
                      items_refs := dict_set (items_refs s) item_id stored_item\<rparr>))"

text \<open>The dictionary of records a store of references stands for.\<close>

definition items_of :: "item_store \<Rightarrow> items" where
  "items_of s = map (\<lambda>p. (fst p, objects s (snd p))) (items_refs s)"

section \<open>Properties named by the specification\<close>

text \<open>
  A record satisfies every supplied price bound: \<open>minPrice\<close> as \<open>price \<ge> minPrice\<close>,
  \<open>maxPrice\<close> as \<open>price \<le> maxPrice\<close>, an absent bound imposing nothing. A record
  with no price satisfies no supplied bound.
\<close>

definition at_least :: "real \<Rightarrow> Item \<Rightarrow> bool" where
  "at_least l it = (case price it of None \<Rightarrow> False | Some p \<Rightarrow> l \<le> p)"

definition at_most :: "real \<Rightarrow> Item \<Rightarrow> bool" where
  "at_most h it = (case price it of None \<Rightarrow> False | Some p \<Rightarrow> p \<le> h)"

definition satisfies_bounds :: "real option \<Rightarrow> real option \<Rightarrow> Item \<Rightarrow> bool" where
  "satisfies_bounds lo hi it =
     ((case lo of None \<Rightarrow> True | Some l \<Rightarrow> at_least l it) \<and>
      (case hi of None \<Rightarrow> True | Some h \<Rightarrow> at_most h it))"

text \<open>Every stored item carries a price, as \<^verbatim>\<open>price: float\<close> declares.\<close>

definition all_priced :: "items \<Rightarrow> bool" where
  "all_priced db = list_all (\<lambda>it. price it \<noteq> None) (dict_values db)"

text \<open>Every stored user carries an email, as \<^verbatim>\<open>email: EmailStr\<close> declares.\<close>

definition all_have_email :: "users \<Rightarrow> bool" where
  "all_have_email db = list_all (\<lambda>u. email u \<noteq> None) (dict_values db)"

text \<open>
  The email of a user contains the search string as a case-insensitive substring: after
  lowering both, the search string occurs in the email.
\<close>

definition email_contains_ci :: "(string \<Rightarrow> string) \<Rightarrow> string \<Rightarrow> User \<Rightarrow> bool" where
  "email_contains_ci lower q u =
     (case email u of
        None \<Rightarrow> False
      | Some e \<Rightarrow> \<exists>pre suf. lower e = pre @ lower q @ suf)"

section \<open>Concrete instances\<close>

text \<open>
  An environment and a few records for evaluating the endpoints on concrete requests:
  an email check that asks for an \<open>@\<close> only, the lowering of the ASCII letters, and
  identifiers of growing length.
\<close>

definition has_at :: "string \<Rightarrow> bool" where
  "has_at s = (CHR ''@'' \<in> set s)"

definition lower_char :: "char \<Rightarrow> char" where
  "lower_char c =
     (let n = (of_char c :: nat) in if 65 \<le> n \<and> n \<le> 90 then char_of (n + 32) else c)"

definition ascii_lower :: "string \<Rightarrow> string" where
  "ascii_lower s = map lower_char s"

definition growing_id :: "nat \<Rightarrow> string" where
  "growing_id n = replicate (Suc n) (CHR ''x'')"

definition env0 :: env where
  "env0 = \<lparr>is_email_of = has_at, lower_of = ascii_lower, uuid4 = growing_id, now = (\<lambda>n. 1000 + n)\<rparr>"

definition alice :: User where
  "alice = \<lparr>id_u = None, name = Some ''Alice'', email = Some ''Alice@Example.com'',
            age = Some 30, created_at_u = None\<rparr>"

definition bob :: User where
  "bob = \<lparr>id_u = Some ''u2'', name = Some ''Bob'', email = Some ''bob@work.org'',
          age = Some 41, created_at_u = Some 2\<rparr>"

definition carol :: User where
  "carol = \<lparr>id_u = None, name = Some ''Carol'', email = Some ''Carol@example.com'',
            age = Some 28, created_at_u = None\<rparr>"

definition widget :: Item where
  "widget = \<lparr>id_i = Some ''a'', title = Some ''Widget'', description = None,
             price = Some 5, quantity = Some 5, created_at_i = Some 1\<rparr>"

definition gadget :: Item where
  "gadget = \<lparr>id_i = Some ''b'', title = Some ''Gadget'', description = Some ''A gadget'',
             price = Some 15, quantity = Some 2, created_at_i = Some 2\<rparr>"

definition gizmo :: Item where
  "gizmo = \<lparr>id_i = Some ''c'', title = Some ''Gizmo'', description = None,
            price = Some 25, quantity = Some 0, created_at_i = Some 3\<rparr>"

definition no_user_change :: UserUpdate where
  "no_user_change = \<lparr>name_upd = Unset, email_upd = Unset, age_upd = Unset\<rparr>"

definition no_item_change :: ItemUpdate where
  "no_item_change =
     \<lparr>title_upd = Unset, description_upd = Unset, price_upd = Unset, quantity_upd = Unset\<rparr>"

text \<open>Eleven stored items: ten widgets, then one gadget.\<close>

definition eleven_items :: items where
  "eleven_items =
     [(''k0'', widget), (''k1'', widget), (''k2'', widget), (''k3'', widget), (''k4'', widget),
      (''k5'', widget), (''k6'', widget), (''k7'', widget), (''k8'', widget), (''k9'', widget),
      (''b'', gadget)]"

definition ten_widgets :: "Item list" where
  "ten_widgets =
     [widget, widget, widget, widget, widget, widget, widget, widget, widget, widget]"

text \<open>
  The operations of the reals, with rounding to the nearest hundredth, as one instance of
  the float operations.
\<close>

definition ideal_ops :: float_ops where
  "ideal_ops =
     \<lparr>fadd = (\<lambda>x y. x + y), fmul_int = (\<lambda>x q. x * of_int q), fdiv_int = (\<lambda>x n. x / of_int n),
      round2 = (\<lambda>x. of_int (round (x * 100)) / 100)\<rparr>"

definition two_items :: items where
  "two_items =
     [(''p'', \<lparr>id_i = Some ''p'', title = Some ''Pen'', description = None, price = Some 10,
               quantity = Some 2, created_at_i = Some 1\<rparr>),
      (''q'', \<lparr>id_i = Some ''q'', title = Some ''Quill'', description = None, price = Some 20,
               quantity = Some 1, created_at_i = Some 2\<rparr>)]"

section \<open>Facts about the dictionary\<close>

lemma dict_get_set_same: "dict_get (dict_set d k v) k = Some v"
  by (induction d) (auto simp: dict_get_def)

lemma dict_get_set_other: "k' \<noteq> k \<Longrightarrow> dict_get (dict_set d k v) k' = dict_get d k'"
  by (induction d) (auto simp: dict_get_def)

lemma dict_keys_set_present: "dict_get d k \<noteq> None \<Longrightarrow> map fst (dict_set d k v) = map fst d"
  by (induction d) (auto simp: dict_get_def)

lemma dict_set_same_value: "dict_get d k = Some v \<Longrightarrow> dict_set d k v = d"
  by (induction d) (auto simp: dict_get_def)

lemma dict_get_del_same: "dict_get (dict_del d k) k = None"
  by (induction d) (auto simp: dict_get_def dict_del_def)

lemma dict_get_del_other: "k' \<noteq> k \<Longrightarrow> dict_get (dict_del d k) k' = dict_get d k'"
  by (induction d) (auto simp: dict_get_def dict_del_def)

section \<open>Partial updates\<close>

lemma update_user_Inr:
  "update_user ie db k upd = Inr (u', db') \<Longrightarrow>
     \<exists>u. dict_get db k = Some u \<and> u' = apply_user_update u upd \<and> db' = dict_set db k u'"
  by (auto simp: update_user_def Let_def split: if_splits option.splits)

lemma update_item_Inr:
  "update_item db k upd = Inr (it', db') \<Longrightarrow>
     \<exists>it. dict_get db k = Some it \<and> it' = apply_item_update it upd \<and> db' = dict_set db k it'"
  by (auto simp: update_item_def Let_def split: if_splits option.splits)

lemma update_user_frame:
  assumes "update_user ie db k upd = Inr (u', db')"
  shows "\<exists>u. dict_get db k = Some u \<and>
           id_u u' = id_u u \<and> created_at_u u' = created_at_u u \<and>
           (name_upd upd = Unset \<longrightarrow> name u' = name u) \<and>
           (\<forall>v. name_upd upd = Given v \<longrightarrow> name u' = v) \<and>
           (email_upd upd = Unset \<longrightarrow> email u' = email u) \<and>
           (\<forall>v. email_upd upd = Given v \<longrightarrow> email u' = v) \<and>
           (age_upd upd = Unset \<longrightarrow> age u' = age u) \<and>
           (\<forall>v. age_upd upd = Given v \<longrightarrow> age u' = v) \<and>
           (name_upd upd = Unset \<and> email_upd upd = Unset \<and> age_upd upd = Unset
              \<longrightarrow> u' = u \<and> db' = db) \<and>
           dict_get db' k = Some u' \<and>
           (\<forall>k'. k' \<noteq> k \<longrightarrow> dict_get db' k' = dict_get db k') \<and>
           map fst db' = map fst db"
proof -
  from assms obtain u where u: "dict_get db k = Some u" "u' = apply_user_update u upd"
    "db' = dict_set db k u'"
    using update_user_Inr by blast
  have frame: "id_u u' = id_u u \<and> created_at_u u' = created_at_u u"
    using u by (simp add: apply_user_update_def)
  have fields: "name u' = setattr_given (name_upd upd) (name u)"
    "email u' = setattr_given (email_upd upd) (email u)"
    "age u' = setattr_given (age_upd upd) (age u)"
    using u by (simp_all add: apply_user_update_def)
  have noop: "name_upd upd = Unset \<and> email_upd upd = Unset \<and> age_upd upd = Unset
      \<longrightarrow> u' = u \<and> db' = db"
  proof
    assume e: "name_upd upd = Unset \<and> email_upd upd = Unset \<and> age_upd upd = Unset"
    then have "u' = u" using u by (simp add: apply_user_update_def setattr_given_def)
    then show "u' = u \<and> db' = db" using u dict_set_same_value by metis
  qed
  have store: "dict_get db' k = Some u'" "\<forall>k'. k' \<noteq> k \<longrightarrow> dict_get db' k' = dict_get db k'"
    "map fst db' = map fst db"
    using u by (simp_all add: dict_get_set_same dict_get_set_other dict_keys_set_present)
  show ?thesis
    using u(1) frame fields noop store
    by (auto simp: setattr_given_def)
qed

lemma update_item_frame:
  assumes "update_item db k upd = Inr (it', db')"
  shows "\<exists>it. dict_get db k = Some it \<and>
           id_i it' = id_i it \<and> created_at_i it' = created_at_i it \<and>
           (title_upd upd = Unset \<longrightarrow> title it' = title it) \<and>
           (\<forall>v. title_upd upd = Given v \<longrightarrow> title it' = v) \<and>
           (description_upd upd = Unset \<longrightarrow> description it' = description it) \<and>
           (\<forall>v. description_upd upd = Given v \<longrightarrow> description it' = v) \<and>
           (price_upd upd = Unset \<longrightarrow> price it' = price it) \<and>
           (\<forall>v. price_upd upd = Given v \<longrightarrow> price it' = v) \<and>
           (quantity_upd upd = Unset \<longrightarrow> quantity it' = quantity it) \<and>
           (\<forall>v. quantity_upd upd = Given v \<longrightarrow> quantity it' = v) \<and>
           (title_upd upd = Unset \<and> description_upd upd = Unset \<and> price_upd upd = Unset \<and>
            quantity_upd upd = Unset \<longrightarrow> it' = it \<and> db' = db) \<and>
           dict_get db' k = Some it' \<and>
           (\<forall>k'. k' \<noteq> k \<longrightarrow> dict_get db' k' = dict_get db k') \<and>
           map fst db' = map fst db"
proof -
  from assms obtain it where it: "dict_get db k = Some it" "it' = apply_item_update it upd"
    "db' = dict_set db k it'"
    using update_item_Inr by blast
  have frame: "id_i it' = id_i it \<and> created_at_i it' = created_at_i it"
    using it by (simp add: apply_item_update_def)
  have fields: "title it' = setattr_given (title_upd upd) (title it)"
    "description it' = setattr_given (description_upd upd) (description it)"
    "price it' = setattr_given (price_upd upd) (price it)"
    "quantity it' = setattr_given (quantity_upd upd) (quantity it)"
    using it by (simp_all add: apply_item_update_def)
  have noop: "title_upd upd = Unset \<and> description_upd upd = Unset \<and> price_upd upd = Unset \<and>
      quantity_upd upd = Unset \<longrightarrow> it' = it \<and> db' = db"
  proof
    assume e: "title_upd upd = Unset \<and> description_upd upd = Unset \<and> price_upd upd = Unset \<and>
      quantity_upd upd = Unset"
    then have "it' = it" using it by (simp add: apply_item_update_def setattr_given_def)
    then show "it' = it \<and> db' = db" using it dict_set_same_value by metis
  qed
  have store: "dict_get db' k = Some it'" "\<forall>k'. k' \<noteq> k \<longrightarrow> dict_get db' k' = dict_get db k'"
    "map fst db' = map fst db"
    using it by (simp_all add: dict_get_set_same dict_get_set_other dict_keys_set_present)
  show ?thesis
    using it(1) frame fields noop store
    by (auto simp: setattr_given_def)
qed

text \<open>
  C3. A successful update changes exactly the fields the payload gives. For users and for
  items alike: the updated record is the stored record of that identifier with every
  given field replaced by the value given and every field left out as it was; the
  identifier and the creation timestamp are carried over; with no field given the
  record returned is the stored record and the dictionary is the same; the updated
  record is what the dictionary holds afterwards, every other entry is untouched and the
  order of the keys is kept.
\<close>

theorem update_changes_exactly_the_given_fields:
  "(update_user ie udb k uupd = Inr (u', udb') \<longrightarrow>
      (\<exists>u. dict_get udb k = Some u \<and>
           id_u u' = id_u u \<and> created_at_u u' = created_at_u u \<and>
           (name_upd uupd = Unset \<longrightarrow> name u' = name u) \<and>
           (\<forall>v. name_upd uupd = Given v \<longrightarrow> name u' = v) \<and>
           (email_upd uupd = Unset \<longrightarrow> email u' = email u) \<and>
           (\<forall>v. email_upd uupd = Given v \<longrightarrow> email u' = v) \<and>
           (age_upd uupd = Unset \<longrightarrow> age u' = age u) \<and>
           (\<forall>v. age_upd uupd = Given v \<longrightarrow> age u' = v) \<and>
           (name_upd uupd = Unset \<and> email_upd uupd = Unset \<and> age_upd uupd = Unset
              \<longrightarrow> u' = u \<and> udb' = udb) \<and>
           dict_get udb' k = Some u' \<and>
           (\<forall>k'. k' \<noteq> k \<longrightarrow> dict_get udb' k' = dict_get udb k') \<and>
           map fst udb' = map fst udb)) \<and>
   (update_item idb j iupd = Inr (it', idb') \<longrightarrow>
      (\<exists>it. dict_get idb j = Some it \<and>
           id_i it' = id_i it \<and> created_at_i it' = created_at_i it \<and>
           (title_upd iupd = Unset \<longrightarrow> title it' = title it) \<and>
           (\<forall>v. title_upd iupd = Given v \<longrightarrow> title it' = v) \<and>
           (description_upd iupd = Unset \<longrightarrow> description it' = description it) \<and>
           (\<forall>v. description_upd iupd = Given v \<longrightarrow> description it' = v) \<and>
           (price_upd iupd = Unset \<longrightarrow> price it' = price it) \<and>
           (\<forall>v. price_upd iupd = Given v \<longrightarrow> price it' = v) \<and>
           (quantity_upd iupd = Unset \<longrightarrow> quantity it' = quantity it) \<and>
           (\<forall>v. quantity_upd iupd = Given v \<longrightarrow> quantity it' = v) \<and>
           (title_upd iupd = Unset \<and> description_upd iupd = Unset \<and> price_upd iupd = Unset \<and>
            quantity_upd iupd = Unset \<longrightarrow> it' = it \<and> idb' = idb) \<and>
           dict_get idb' j = Some it' \<and>
           (\<forall>k'. k' \<noteq> j \<longrightarrow> dict_get idb' k' = dict_get idb k') \<and>
           map fst idb' = map fst idb))"
  using update_user_frame [of ie udb k uupd u' udb'] update_item_frame [of idb j iupd it' idb']
  by blast

theorem update_changes_exactly_the_given_fields_witness:
  "update_user has_at [(''u1'', alice), (''u2'', bob)] ''u2''
       (no_user_change\<lparr>age_upd := Given (Some 42)\<rparr>)
     = Inr (bob\<lparr>age := Some 42\<rparr>, [(''u1'', alice), (''u2'', bob\<lparr>age := Some 42\<rparr>)]) \<and>
   name (bob\<lparr>age := Some 42\<rparr>) = name bob \<and>
   update_item [(''a'', widget), (''b'', gadget)] ''a'' no_item_change
     = Inr (widget, [(''a'', widget), (''b'', gadget)]) \<and>
   update_item [(''a'', widget), (''b'', gadget)] ''a''
       (no_item_change\<lparr>quantity_upd := Given (Some 10)\<rparr>)
     = Inr (widget\<lparr>quantity := Some 10\<rparr>,
            [(''a'', widget\<lparr>quantity := Some 10\<rparr>), (''b'', gadget)]) \<and>
   price (widget\<lparr>quantity := Some 10\<rparr>) = price widget \<and>
   title (widget\<lparr>quantity := Some 10\<rparr>) = title widget"
proof -
  have u: "update_user has_at [(''u1'', alice), (''u2'', bob)] ''u2''
       (no_user_change\<lparr>age_upd := Given (Some 42)\<rparr>)
     = Inr (bob\<lparr>age := Some 42\<rparr>, [(''u1'', alice), (''u2'', bob\<lparr>age := Some 42\<rparr>)])"
    by (simp add: update_user_def UserUpdate_valid_def optional_def age_ok_def dict_get_def
        apply_user_update_def setattr_given_def no_user_change_def alice_def bob_def Let_def)
  have i0: "update_item [(''a'', widget), (''b'', gadget)] ''a'' no_item_change
     = Inr (widget, [(''a'', widget), (''b'', gadget)])"
    by (simp add: update_item_def ItemUpdate_valid_def optional_def dict_get_def
        apply_item_update_def setattr_given_def no_item_change_def widget_def gadget_def Let_def)
  have i1: "update_item [(''a'', widget), (''b'', gadget)] ''a''
       (no_item_change\<lparr>quantity_upd := Given (Some 10)\<rparr>)
     = Inr (widget\<lparr>quantity := Some 10\<rparr>,
            [(''a'', widget\<lparr>quantity := Some 10\<rparr>), (''b'', gadget)])"
    by (simp add: update_item_def ItemUpdate_valid_def optional_def quantity_ok_def dict_get_def
        apply_item_update_def setattr_given_def no_item_change_def widget_def gadget_def Let_def)
  show ?thesis
    using u i0 i1
      update_changes_exactly_the_given_fields [of has_at "[(''u1'', alice), (''u2'', bob)]" "''u2''"
        "no_user_change\<lparr>age_upd := Given (Some 42)\<rparr>" "bob\<lparr>age := Some 42\<rparr>"
        "[(''u1'', alice), (''u2'', bob\<lparr>age := Some 42\<rparr>)]"
        "[(''a'', widget), (''b'', gadget)]" "''a''"
        "no_item_change\<lparr>quantity_upd := Given (Some 10)\<rparr>" "widget\<lparr>quantity := Some 10\<rparr>"
        "[(''a'', widget\<lparr>quantity := Some 10\<rparr>), (''b'', gadget)]"]
    by (simp add: no_user_change_def no_item_change_def dict_get_def)
qed

section \<open>Absent identifiers\<close>

lemma absent_user_not_found:
  assumes "dict_get (users_db st) k = None"
  shows "handle E (Get_user k) st = (Inl NotFound, st)"
    and "UserUpdate_valid (is_email_of E) upd \<Longrightarrow> handle E (Update_user k upd) st = (Inl NotFound, st)"
    and "handle E (Delete_user k) st = (Inl NotFound, st)"
  using assms
  by (simp_all add: get_user_def update_user_def delete_user_def reading_def on_users_def)

lemma absent_item_not_found:
  assumes "dict_get (items_db st) k = None"
  shows "handle E (Get_item k) st = (Inl NotFound, st)"
    and "ItemUpdate_valid upd \<Longrightarrow> handle E (Update_item k upd) st = (Inl NotFound, st)"
    and "handle E (Delete_item k) st = (Inl NotFound, st)"
  using assms
  by (simp_all add: get_item_def update_item_def delete_item_def reading_def on_items_def)

lemma delete_user_then_get:
  assumes "dict_get (users_db st) k \<noteq> None"
  shows "handle E (Delete_user k) st = (Inr No_content, st\<lparr>users_db := dict_del (users_db st) k\<rparr>)"
    and "handle E (Get_user k) (st\<lparr>users_db := dict_del (users_db st) k\<rparr>)
           = (Inl NotFound, st\<lparr>users_db := dict_del (users_db st) k\<rparr>)"
  using assms
  by (auto simp: get_user_def delete_user_def reading_def dict_get_del_same)

lemma delete_item_then_get:
  assumes "dict_get (items_db st) k \<noteq> None"
  shows "handle E (Delete_item k) st = (Inr No_content, st\<lparr>items_db := dict_del (items_db st) k\<rparr>)"
    and "handle E (Get_item k) (st\<lparr>items_db := dict_del (items_db st) k\<rparr>)
           = (Inl NotFound, st\<lparr>items_db := dict_del (items_db st) k\<rparr>)"
  using assms
  by (auto simp: get_item_def delete_item_def reading_def dict_get_del_same)

text \<open>
  C8. On an identifier that is not a key of its dictionary, get, update (of a payload the
  request schema accepts) and delete answer \<open>NotFound\<close> and leave the whole state as
  it was; on a stored identifier, delete succeeds and a get of the same identifier in
  the state delete leaves answers \<open>NotFound\<close>. For users and for items.
\<close>

theorem absent_identifier_is_not_found:
  "(dict_get (users_db st) k = None \<longrightarrow>
      handle E (Get_user k) st = (Inl NotFound, st) \<and>
      (UserUpdate_valid (is_email_of E) uupd \<longrightarrow>
         handle E (Update_user k uupd) st = (Inl NotFound, st)) \<and>
      handle E (Delete_user k) st = (Inl NotFound, st)) \<and>
   (dict_get (items_db st) k = None \<longrightarrow>
      handle E (Get_item k) st = (Inl NotFound, st) \<and>
      (ItemUpdate_valid iupd \<longrightarrow> handle E (Update_item k iupd) st = (Inl NotFound, st)) \<and>
      handle E (Delete_item k) st = (Inl NotFound, st)) \<and>
   (dict_get (users_db st) k \<noteq> None \<longrightarrow>
      (\<exists>st'. handle E (Delete_user k) st = (Inr No_content, st') \<and>
             handle E (Get_user k) st' = (Inl NotFound, st'))) \<and>
   (dict_get (items_db st) k \<noteq> None \<longrightarrow>
      (\<exists>st'. handle E (Delete_item k) st = (Inr No_content, st') \<and>
             handle E (Get_item k) st' = (Inl NotFound, st')))"
proof -
  have users_absent: "dict_get (users_db st) k = None \<longrightarrow>
      handle E (Get_user k) st = (Inl NotFound, st) \<and>
      (UserUpdate_valid (is_email_of E) uupd \<longrightarrow>
         handle E (Update_user k uupd) st = (Inl NotFound, st)) \<and>
      handle E (Delete_user k) st = (Inl NotFound, st)"
    using absent_user_not_found by blast
  have items_absent: "dict_get (items_db st) k = None \<longrightarrow>
      handle E (Get_item k) st = (Inl NotFound, st) \<and>
      (ItemUpdate_valid iupd \<longrightarrow> handle E (Update_item k iupd) st = (Inl NotFound, st)) \<and>
      handle E (Delete_item k) st = (Inl NotFound, st)"
    using absent_item_not_found by blast
  have users_deleted: "dict_get (users_db st) k \<noteq> None \<longrightarrow>
      (\<exists>st'. handle E (Delete_user k) st = (Inr No_content, st') \<and>
             handle E (Get_user k) st' = (Inl NotFound, st'))"
    using delete_user_then_get by blast
  have items_deleted: "dict_get (items_db st) k \<noteq> None \<longrightarrow>
      (\<exists>st'. handle E (Delete_item k) st = (Inr No_content, st') \<and>
             handle E (Get_item k) st' = (Inl NotFound, st'))"
    using delete_item_then_get by blast
  show ?thesis
    using users_absent items_absent users_deleted items_deleted by blast
qed

theorem absent_identifier_is_not_found_witness:
  "handle env0 (Get_user ''a'') \<lparr>users_db = [(''u2'', bob)], items_db = [(''a'', widget)], served = 2\<rparr>
     = (Inl NotFound, \<lparr>users_db = [(''u2'', bob)], items_db = [(''a'', widget)], served = 2\<rparr>) \<and>
   handle env0 (Update_user ''a'' no_user_change)
       \<lparr>users_db = [(''u2'', bob)], items_db = [(''a'', widget)], served = 2\<rparr>
     = (Inl NotFound, \<lparr>users_db = [(''u2'', bob)], items_db = [(''a'', widget)], served = 2\<rparr>) \<and>
   handle env0 (Delete_user ''a'') \<lparr>users_db = [(''u2'', bob)], items_db = [(''a'', widget)], served = 2\<rparr>
     = (Inl NotFound, \<lparr>users_db = [(''u2'', bob)], items_db = [(''a'', widget)], served = 2\<rparr>) \<and>
   handle env0 (Get_item ''u2'') \<lparr>users_db = [(''u2'', bob)], items_db = [(''a'', widget)], served = 2\<rparr>
     = (Inl NotFound, \<lparr>users_db = [(''u2'', bob)], items_db = [(''a'', widget)], served = 2\<rparr>) \<and>
   handle env0 (Update_item ''u2'' no_item_change)
       \<lparr>users_db = [(''u2'', bob)], items_db = [(''a'', widget)], served = 2\<rparr>
     = (Inl NotFound, \<lparr>users_db = [(''u2'', bob)], items_db = [(''a'', widget)], served = 2\<rparr>) \<and>
   handle env0 (Delete_item ''u2'') \<lparr>users_db = [(''u2'', bob)], items_db = [(''a'', widget)], served = 2\<rparr>
     = (Inl NotFound, \<lparr>users_db = [(''u2'', bob)], items_db = [(''a'', widget)], served = 2\<rparr>) \<and>
   (\<exists>st'. handle env0 (Delete_user ''u2'')
             \<lparr>users_db = [(''u2'', bob)], items_db = [(''a'', widget)], served = 2\<rparr>
           = (Inr No_content, st') \<and>
         handle env0 (Get_user ''u2'') st' = (Inl NotFound, st')) \<and>
   (\<exists>st'. handle env0 (Delete_item ''a'')
             \<lparr>users_db = [(''u2'', bob)], items_db = [(''a'', widget)], served = 2\<rparr>
           = (Inr No_content, st') \<and>
         handle env0 (Get_item ''a'') st' = (Inl NotFound, st'))"
proof -
  have u: "dict_get [(''u2'', bob)] ''a'' = None" "dict_get [(''u2'', bob)] ''u2'' \<noteq> None"
    by (simp_all add: dict_get_def)
  have i: "dict_get [(''a'', widget)] ''u2'' = None" "dict_get [(''a'', widget)] ''a'' \<noteq> None"
    by (simp_all add: dict_get_def)
  have v: "UserUpdate_valid (is_email_of env0) no_user_change" "ItemUpdate_valid no_item_change"
    by (simp_all add: UserUpdate_valid_def ItemUpdate_valid_def optional_def
        no_user_change_def no_item_change_def)
  show ?thesis
    using u i v
      absent_identifier_is_not_found [of
        "\<lparr>users_db = [(''u2'', bob)], items_db = [(''a'', widget)], served = 2\<rparr>" "''a''" env0
        no_user_change no_item_change]
      absent_identifier_is_not_found [of
        "\<lparr>users_db = [(''u2'', bob)], items_db = [(''a'', widget)], served = 2\<rparr>" "''u2''" env0
        no_user_change no_item_change]
    by simp
qed


section \<open>Listing: filters and the window\<close>

lemma slice_window:
  assumes "0 \<le> skip" "0 \<le> limit"
  shows "slice xs skip (skip + limit) = take (nat limit) (drop (nat skip) xs)"
proof (cases "skip \<le> int (length xs)")
  case True
  then have "nat (min (skip + limit) (int (length xs)) - skip) = min (nat limit) (length xs - nat skip)"
    using assms by (simp add: min_def) linarith
  then show ?thesis
    using assms True by (simp add: slice_def Let_def min_def)
next
  case False
  then show ?thesis
    using assms by (simp add: slice_def Let_def min_def)
qed

lemma price_filter_priced:
  "list_all (\<lambda>it. price it \<noteq> None) xs \<Longrightarrow>
     price_filter keep xs = Inr (filter (\<lambda>it. case price it of None \<Rightarrow> False | Some p \<Rightarrow> keep p) xs)"
  by (induction xs) (auto simp: and_then_def)

lemma list_all_filter: "list_all P xs \<Longrightarrow> list_all P (filter Q xs)"
  by (induction xs) auto

lemma filter_no_bounds: "filter (satisfies_bounds None None) xs = xs"
  by (induction xs) (auto simp: satisfies_bounds_def)

lemma satisfies_lower:
  "satisfies_bounds (Some l) None = (\<lambda>it. case price it of None \<Rightarrow> False | Some p \<Rightarrow> l \<le> p)"
  by (auto simp: fun_eq_iff satisfies_bounds_def at_least_def split: option.splits)

lemma satisfies_upper:
  "satisfies_bounds None (Some h) = (\<lambda>it. case price it of None \<Rightarrow> False | Some p \<Rightarrow> p \<le> h)"
  by (auto simp: fun_eq_iff satisfies_bounds_def at_most_def split: option.splits)

lemma satisfies_bounds_meaning:
  "satisfies_bounds lo hi it
     = ((\<forall>l. lo = Some l \<longrightarrow> (\<exists>p. price it = Some p \<and> l \<le> p)) \<and>
        (\<forall>h. hi = Some h \<longrightarrow> (\<exists>p. price it = Some p \<and> p \<le> h)))"
  by (auto simp: satisfies_bounds_def at_least_def at_most_def split: option.splits)

lemma get_all_items_unbounded:
  assumes "0 \<le> skip" "1 \<le> limit" "limit \<le> 100"
  shows "get_all_items db skip limit None None = Inr (slice (dict_values db) skip (skip + limit))"
  using assms by (simp add: get_all_items_def bound_ok_def and_then_def)

lemma get_all_items_priced:
  assumes "0 \<le> skip" "1 \<le> limit" "limit \<le> 100" "bound_ok lo" "bound_ok hi" "all_priced db"
  shows "get_all_items db skip limit lo hi
           = Inr (slice (filter (satisfies_bounds lo hi) (dict_values db)) skip (skip + limit))"
proof -
  let ?xs = "dict_values db"
  have p: "list_all (\<lambda>it. price it \<noteq> None) ?xs"
    using assms(6) by (simp add: all_priced_def)
  have f: "filter (satisfies_bounds lo hi) ?xs = filter (satisfies_bounds None hi) (filter (satisfies_bounds lo None) ?xs)"
    by (auto simp: satisfies_bounds_def split: option.splits intro!: filter_cong)
  have lo_step: "(case lo of None \<Rightarrow> Inr ?xs | Some l \<Rightarrow> price_filter (\<lambda>p. p \<ge> l) ?xs)
      = Inr (filter (satisfies_bounds lo None) ?xs)"
  proof (cases lo)
    case None
    then show ?thesis by (simp add: filter_no_bounds)
  next
    case (Some l)
    then show ?thesis
      using price_filter_priced [OF p, of "\<lambda>p. p \<ge> l"]
      by (simp add: satisfies_lower)
  qed
  let ?ys = "filter (satisfies_bounds lo None) ?xs"
  have q: "list_all (\<lambda>it. price it \<noteq> None) ?ys"
    using p by (rule list_all_filter)
  have hi_step: "(case hi of None \<Rightarrow> Inr ?ys | Some h \<Rightarrow> price_filter (\<lambda>p. p \<le> h) ?ys)
      = Inr (filter (satisfies_bounds None hi) ?ys)"
  proof (cases hi)
    case None
    show ?thesis unfolding None by (simp only: option.case filter_no_bounds)
  next
    case (Some h)
    then show ?thesis
      using price_filter_priced [OF q, of "\<lambda>p. p \<le> h"]
      by (simp add: satisfies_upper)
  qed
  show ?thesis
    using assms(1-5) lo_step hi_step f
    by (simp add: get_all_items_def and_then_def)
qed

lemma get_all_items_filtered:
  assumes "0 \<le> skip" "1 \<le> limit" "limit \<le> 100" "bound_ok lo" "bound_ok hi"
    "(lo = None \<and> hi = None) \<or> all_priced db"
  shows "get_all_items db skip limit lo hi
           = Inr (slice (filter (satisfies_bounds lo hi) (dict_values db)) skip (skip + limit))"
  using assms(6)
proof
  assume "lo = None \<and> hi = None"
  then show ?thesis
    using get_all_items_unbounded [OF assms(1-3)] by (simp add: filter_no_bounds)
next
  assume "all_priced db"
  then show ?thesis
    using assms(1-5) get_all_items_priced by blast
qed

lemma get_all_items_refused:
  "\<not> (0 \<le> skip \<and> 1 \<le> limit \<and> limit \<le> 100 \<and> bound_ok lo \<and> bound_ok hi) \<Longrightarrow>
     get_all_items db skip limit lo hi = Inl ValidationError"
  by (simp add: get_all_items_def)

lemma get_all_users_refused:
  "\<not> (0 \<le> skip \<and> 1 \<le> limit \<and> limit \<le> 100) \<Longrightarrow>
     get_all_users db skip limit = Inl ValidationError"
  by (simp add: get_all_users_def)

lemma dict_values_set_new:
  "dict_get d k = None \<Longrightarrow> dict_values (dict_set d k v) = dict_values d @ [v]"
  by (induction d) (auto simp: dict_get_def dict_values_def split: if_splits)

lemma window_length:
  assumes "0 \<le> skip" "0 \<le> limit"
  shows "length (slice xs skip (skip + limit)) \<le> nat limit"
    and "int (length xs) \<le> skip \<Longrightarrow> slice xs skip (skip + limit) = []"
  using assms by (simp_all add: slice_window)

lemma window_pages:
  assumes "0 \<le> n" "0 \<le> m"
  shows "slice xs 0 (0 + n) @ slice xs n (n + m) = slice xs 0 (0 + (n + m))"
proof -
  have "take (nat n) xs @ take (nat m) (drop (nat n) xs) = take (nat n + nat m) xs"
    by (simp add: take_add)
  moreover have "nat n + nat m = nat (n + m)"
    using assms by (simp add: nat_add_distrib)
  ultimately show ?thesis
    using assms slice_window [of 0 n xs] slice_window [of n m xs] slice_window [of 0 "n + m" xs]
    by simp
qed

text \<open>
  A listing with a price bound raises on a state the program reaches: after an item is
  created and its price is updated to \<^verbatim>\<open>null\<close>, the comparison with the bound fails.
\<close>

lemma bounded_listing_raises_after_null_price:
  "fst (run env0 [Create_item widget, Update_item ''x'' (no_item_change\<lparr>price_upd := Given None\<rparr>),
                  Get_all_items 0 10 (Some 10) (Some 20)] initial)
     = [Inr (Item_reply (widget\<lparr>id_i := Some ''x'', created_at_i := Some 1000\<rparr>)),
        Inr (Item_reply (widget\<lparr>id_i := Some ''x'', price := None, created_at_i := Some 1000\<rparr>)),
        Inl TypeError]"
  by (simp add: serve_def on_items_def reading_def create_item_def update_item_def
      get_all_items_def bound_ok_def and_then_def ItemUpdate_valid_def Item_valid_def
      optional_def required_def title_ok_def price_ok_def quantity_ok_def dict_get_def
      dict_values_def apply_item_update_def setattr_given_def no_item_change_def env0_def
      growing_id_def initial_def widget_def Let_def)

text \<open>
  C1, as stated, fails in its last sentence: the window is taken after the filter, so the
  records a filtered listing returns need not be records of the unfiltered listing. With
  ten widgets of price 5 stored before one gadget of price 15, the listing with bounds 10
  and 20 returns the gadget, while the unfiltered listing (the same default window of ten)
  returns the ten widgets, none of which has a price in \<open>[10, 20]\<close>.
\<close>

theorem filtered_listing_is_not_filter_of_unfiltered_listing:
  "get_all_items eleven_items 0 10 (Some 10) (Some 20) = Inr [gadget] \<and>
   get_all_items eleven_items 0 10 None None = Inr ten_widgets \<and>
   filter (\<lambda>it. \<exists>p. price it = Some p \<and> 10 \<le> p \<and> p \<le> 20) ten_widgets = []"
  by (simp add: get_all_items_def bound_ok_def and_then_def slice_def dict_values_def
      eleven_items_def ten_widgets_def widget_def gadget_def)

text \<open>
  C1, amended. For a listing call within the declared bounds of its parameters (any other
  call is answered with a validation error), on a store whose items all carry a price or
  with no price bound supplied: the listing is the window \<open>[skip : skip + limit]\<close> of
  the stored records, in insertion order, that satisfy every supplied bound, a record
  satisfying the bounds exactly when its price is at least a supplied \<open>lo\<close> and at most a
  supplied \<open>hi\<close>. With the bounds 10 and 20 the listing is the window of the records of
  the whole collection of price in \<open>[10, 20]\<close>; these are the records of that price of
  the unfiltered listing when the window starts at 0 and covers the collection. A record
  stored under a new identifier comes last in the order; storing under a key already
  there and deleting a key leave the order of the other keys.
\<close>

theorem listing_is_window_of_filtered_collection:
  assumes "0 \<le> skip" "1 \<le> limit" "limit \<le> 100" "bound_ok lo" "bound_ok hi"
    "(lo = None \<and> hi = None) \<or> all_priced db"
  shows "get_all_items db skip limit lo hi
           = Inr (slice (filter (satisfies_bounds lo hi) (dict_values db)) skip (skip + limit)) \<and>
         (\<forall>it. satisfies_bounds lo hi it
            = ((\<forall>l. lo = Some l \<longrightarrow> (\<exists>p. price it = Some p \<and> l \<le> p)) \<and>
               (\<forall>h. hi = Some h \<longrightarrow> (\<exists>p. price it = Some p \<and> p \<le> h)))) \<and>
         (all_priced db \<longrightarrow>
            get_all_items db skip limit (Some 10) (Some 20)
              = Inr (slice (filter (\<lambda>it. \<exists>p. price it = Some p \<and> 10 \<le> p \<and> p \<le> 20) (dict_values db))
                      skip (skip + limit))) \<and>
         (int (length db) \<le> limit \<longrightarrow>
            get_all_items db 0 limit None None = Inr (dict_values db) \<and>
            (all_priced db \<longrightarrow>
               get_all_items db 0 limit (Some 10) (Some 20)
                 = Inr (filter (\<lambda>it. \<exists>p. price it = Some p \<and> 10 \<le> p \<and> p \<le> 20) (dict_values db)))) \<and>
         (\<forall>k v. dict_get db k = None \<longrightarrow> dict_values (dict_set db k v) = dict_values db @ [v]) \<and>
         (\<forall>k v. dict_get db k \<noteq> None \<longrightarrow> map fst (dict_set db k v) = map fst db) \<and>
         (\<forall>k. map fst (dict_del db k) = filter (\<lambda>k'. k' \<noteq> k) (map fst db)) \<and>
         (\<forall>s l a b. \<not> (0 \<le> s \<and> 1 \<le> l \<and> l \<le> 100 \<and> bound_ok a \<and> bound_ok b) \<longrightarrow>
            get_all_items db s l a b = Inl ValidationError)"
proof -
  let ?in_range = "\<lambda>it. \<exists>p. price it = Some p \<and> 10 \<le> p \<and> p \<le> (20::real)"
  have general: "get_all_items db skip limit lo hi
      = Inr (slice (filter (satisfies_bounds lo hi) (dict_values db)) skip (skip + limit))"
    using assms by (rule get_all_items_filtered)
  have meaning: "\<forall>it. satisfies_bounds lo hi it
      = ((\<forall>l. lo = Some l \<longrightarrow> (\<exists>p. price it = Some p \<and> l \<le> p)) \<and>
         (\<forall>h. hi = Some h \<longrightarrow> (\<exists>p. price it = Some p \<and> p \<le> h)))"
    using satisfies_bounds_meaning by blast
  have pred: "satisfies_bounds (Some 10) (Some 20) = ?in_range"
    by (auto simp: fun_eq_iff satisfies_bounds_def at_least_def at_most_def split: option.splits)
  have b: "bound_ok (Some 10)" "bound_ok (Some 20)"
    by (simp_all add: bound_ok_def)
  have ranged: "all_priced db \<longrightarrow> get_all_items db skip limit (Some 10) (Some 20)
      = Inr (slice (filter ?in_range (dict_values db)) skip (skip + limit))"
  proof
    assume a: "all_priced db"
    show "get_all_items db skip limit (Some 10) (Some 20)
      = Inr (slice (filter ?in_range (dict_values db)) skip (skip + limit))"
      using get_all_items_priced [OF assms(1-3) b(1) b(2) a] pred by simp
  qed
  have covered: "int (length db) \<le> limit \<longrightarrow>
      get_all_items db 0 limit None None = Inr (dict_values db) \<and>
      (all_priced db \<longrightarrow>
         get_all_items db 0 limit (Some 10) (Some 20) = Inr (filter ?in_range (dict_values db)))"
  proof
    assume c: "int (length db) \<le> limit"
    have l: "(0::int) \<le> 0" by simp
    have len: "length (filter ?in_range (dict_values db)) \<le> length db"
      using length_filter_le [of ?in_range "dict_values db"] by (simp add: dict_values_def)
    have whole: "get_all_items db 0 limit None None = Inr (dict_values db)"
      using get_all_items_unbounded [OF l assms(2,3)] c assms(2)
        slice_window [of 0 limit "dict_values db"]
      by (simp add: dict_values_def)
    have part: "all_priced db \<longrightarrow>
        get_all_items db 0 limit (Some 10) (Some 20) = Inr (filter ?in_range (dict_values db))"
    proof
      assume a: "all_priced db"
      show "get_all_items db 0 limit (Some 10) (Some 20) = Inr (filter ?in_range (dict_values db))"
        using get_all_items_priced [OF l assms(2,3) b(1) b(2) a] pred c len assms(2)
          slice_window [of 0 limit "filter ?in_range (dict_values db)"]
        by simp
    qed
    show "get_all_items db 0 limit None None = Inr (dict_values db) \<and>
      (all_priced db \<longrightarrow>
         get_all_items db 0 limit (Some 10) (Some 20) = Inr (filter ?in_range (dict_values db)))"
      using whole part by blast
  qed
  have order: "\<forall>k v. dict_get db k = None \<longrightarrow> dict_values (dict_set db k v) = dict_values db @ [v]"
    by (simp add: dict_values_set_new)
  have kept: "\<forall>k v. dict_get db k \<noteq> None \<longrightarrow> map fst (dict_set db k v) = map fst db"
    by (simp add: dict_keys_set_present)
  have deleted: "\<forall>k. map fst (dict_del db k) = filter (\<lambda>k'. k' \<noteq> k) (map fst db)"
    by (simp add: dict_del_def filter_map comp_def)
  have refused: "\<forall>s l a b. \<not> (0 \<le> s \<and> 1 \<le> l \<and> l \<le> 100 \<and> bound_ok a \<and> bound_ok b) \<longrightarrow>
      get_all_items db s l a b = Inl ValidationError"
    using get_all_items_refused by blast
  show ?thesis
    using general meaning ranged covered order kept deleted refused by blast
qed

theorem listing_is_window_of_filtered_collection_witness:
  "get_all_items [(''a'', widget), (''b'', gadget), (''c'', gizmo)] 0 10 (Some 10) (Some 20)
     = Inr [gadget] \<and>
   get_all_items [(''a'', widget), (''b'', gadget), (''c'', gizmo)] 0 10 None None
     = Inr [widget, gadget, gizmo] \<and>
   price gadget = Some 15 \<and>
   get_all_items [(''a'', widget), (''b'', gadget), (''c'', gizmo)] 0 10 (Some (- 1)) None
     = Inl ValidationError"
proof -
  have h: "(0::int) \<le> 0" "(1::int) \<le> 10" "(10::int) \<le> 100"
    "bound_ok (Some 10)" "bound_ok (Some 20)"
    "(Some (10::real) = None \<and> Some (20::real) = None) \<or>
     all_priced [(''a'', widget), (''b'', gadget), (''c'', gizmo)]"
    by (simp_all add: bound_ok_def all_priced_def dict_values_def widget_def gadget_def gizmo_def)
  have e: "get_all_items [(''a'', widget), (''b'', gadget), (''c'', gizmo)] 0 10 (Some 10) (Some 20)
      = Inr [gadget]"
    "get_all_items [(''a'', widget), (''b'', gadget), (''c'', gizmo)] 0 10 None None
      = Inr [widget, gadget, gizmo]"
    "price gadget = Some 15"
    "get_all_items [(''a'', widget), (''b'', gadget), (''c'', gizmo)] 0 10 (Some (- 1)) None
      = Inl ValidationError"
    by (simp_all add: get_all_items_def bound_ok_def and_then_def slice_def dict_values_def
        widget_def gadget_def gizmo_def)
  show ?thesis
    using e listing_is_window_of_filtered_collection [OF h] by simp
qed

text \<open>
  C2, as stated, fails: the endpoints declare \<^verbatim>\<open>limit\<close> with \<^verbatim>\<open>le=100\<close>, so a limit
  above 100 is answered with a validation error, and the one page of 120 records that
  the two pages of 60 should add up to is refused.
\<close>

theorem limit_above_100_is_refused:
  "get_all_users [(''u1'', alice), (''u2'', bob)] 0 60 = Inr [alice, bob] \<and>
   get_all_users [(''u1'', alice), (''u2'', bob)] 60 60 = Inr [] \<and>
   get_all_users [(''u1'', alice), (''u2'', bob)] 0 (60 + 60) = Inl ValidationError \<and>
   get_all_items [(''a'', widget)] 0 101 None None = Inl ValidationError"
  by (simp add: get_all_users_def get_all_items_def slice_def dict_values_def)

text \<open>
  C2, amended. For users, on every state of the collection: within the declared bounds,
  \<open>0 \<le> skip\<close> and \<open>1 \<le> limit \<le> 100\<close>, a listing raises nothing and returns at most
  \<open>limit\<close> records, none when \<open>skip\<close> reaches the number of records; and for \<open>1 \<le> n\<close>,
  \<open>1 \<le> m\<close>, \<open>n + m \<le> 100\<close> the page \<open>(0, n)\<close> followed by the page \<open>(n, m)\<close> is the
  page \<open>(0, n + m)\<close>. For items the same holds under fixed price bounds, each supplied
  bound being at least 0 as declared, on a store whose items all carry a price or with no
  bound supplied, the records counted being those that satisfy the bounds. Every limit
  above 100 is answered with a validation error, for users and for items, whatever the
  other parameters and the state.
\<close>

theorem pagination_within_declared_bounds:
  assumes "0 \<le> skip" "1 \<le> limit" "limit \<le> 100" "1 \<le> n" "1 \<le> m" "n + m \<le> 100"
    "bound_ok lo" "bound_ok hi" "(lo = None \<and> hi = None) \<or> all_priced idb"
  shows "(\<exists>page. get_all_users udb skip limit = Inr page \<and> length page \<le> nat limit \<and>
            (int (length udb) \<le> skip \<longrightarrow> page = [])) \<and>
         (\<exists>a b c. get_all_users udb 0 n = Inr a \<and> get_all_users udb n m = Inr b \<and>
            get_all_users udb 0 (n + m) = Inr c \<and> a @ b = c) \<and>
         (\<exists>page. get_all_items idb skip limit lo hi = Inr page \<and> length page \<le> nat limit \<and>
            (int (length (filter (satisfies_bounds lo hi) (dict_values idb))) \<le> skip
               \<longrightarrow> page = [])) \<and>
         (\<exists>a b c. get_all_items idb 0 n lo hi = Inr a \<and> get_all_items idb n m lo hi = Inr b \<and>
            get_all_items idb 0 (n + m) lo hi = Inr c \<and> a @ b = c) \<and>
         (\<forall>s l. 100 < l \<longrightarrow> get_all_users udb s l = Inl ValidationError) \<and>
         (\<forall>s l a b. 100 < l \<longrightarrow> get_all_items idb s l a b = Inl ValidationError)"
proof -
  have nm: "0 \<le> n" "0 \<le> m" "1 \<le> n + m" "n \<le> 100" "m \<le> 100" "(0::int) \<le> 0" "0 \<le> limit"
    using assms by simp_all
  have u1: "\<exists>page. get_all_users udb skip limit = Inr page \<and> length page \<le> nat limit \<and>
      (int (length udb) \<le> skip \<longrightarrow> page = [])"
    using assms(1-3) window_length [OF assms(1) nm(7), of "dict_values udb"]
    by (simp add: get_all_users_def dict_values_def)
  have u2: "\<exists>a b c. get_all_users udb 0 n = Inr a \<and> get_all_users udb n m = Inr b \<and>
      get_all_users udb 0 (n + m) = Inr c \<and> a @ b = c"
    using assms(4-6) nm window_pages [OF nm(1,2), of "dict_values udb"]
    by (simp add: get_all_users_def)
  let ?f = "filter (satisfies_bounds lo hi) (dict_values idb)"
  have i1: "\<exists>page. get_all_items idb skip limit lo hi = Inr page \<and> length page \<le> nat limit \<and>
      (int (length ?f) \<le> skip \<longrightarrow> page = [])"
    using get_all_items_filtered [OF assms(1-3) assms(7-9)] window_length [OF assms(1) nm(7), of ?f]
    by simp
  have i2: "\<exists>a b c. get_all_items idb 0 n lo hi = Inr a \<and> get_all_items idb n m lo hi = Inr b \<and>
      get_all_items idb 0 (n + m) lo hi = Inr c \<and> a @ b = c"
    using get_all_items_filtered [OF nm(6) assms(4) nm(4) assms(7-9)]
      get_all_items_filtered [OF nm(1) assms(5) nm(5) assms(7-9)]
      get_all_items_filtered [OF nm(6) nm(3) assms(6) assms(7-9)]
      window_pages [OF nm(1,2), of ?f]
    by simp
  have r1: "\<forall>s l. 100 < l \<longrightarrow> get_all_users udb s l = Inl ValidationError"
    by (simp add: get_all_users_refused)
  have r2: "\<forall>s l a b. 100 < l \<longrightarrow> get_all_items idb s l a b = Inl ValidationError"
    by (simp add: get_all_items_refused)
  show ?thesis using u1 u2 i1 i2 r1 r2 by blast
qed

theorem pagination_within_declared_bounds_witness:
  "get_all_users [(''u1'', alice), (''u2'', bob)] 1 5 = Inr [bob] \<and>
   get_all_users [(''u1'', alice), (''u2'', bob)] 0 1 = Inr [alice] \<and>
   get_all_users [(''u1'', alice), (''u2'', bob)] 1 2 = Inr [bob] \<and>
   get_all_users [(''u1'', alice), (''u2'', bob)] 0 (1 + 2) = Inr [alice, bob] \<and>
   get_all_items [(''a'', widget), (''b'', gadget), (''c'', gizmo)] 1 5 (Some 10) None
     = Inr [gizmo] \<and>
   get_all_items [(''a'', widget), (''b'', gadget), (''c'', gizmo)] 0 1 (Some 10) None
     = Inr [gadget] \<and>
   get_all_items [(''a'', widget), (''b'', gadget), (''c'', gizmo)] 1 2 (Some 10) None
     = Inr [gizmo] \<and>
   get_all_items [(''a'', widget), (''b'', gadget), (''c'', gizmo)] 0 (1 + 2) (Some 10) None
     = Inr [gadget, gizmo] \<and>
   get_all_users [(''u1'', alice), (''u2'', bob)] 0 500 = Inl ValidationError"
proof -
  have h: "(0::int) \<le> 1" "(1::int) \<le> 5" "(5::int) \<le> 100" "(1::int) \<le> 1" "(1::int) \<le> 2"
    "(1::int) + 2 \<le> 100" "bound_ok (Some 10)" "bound_ok None"
    "(Some (10::real) = None \<and> (None::real option) = None) \<or>
     all_priced [(''a'', widget), (''b'', gadget), (''c'', gizmo)]"
    by (simp_all add: bound_ok_def all_priced_def dict_values_def widget_def gadget_def gizmo_def)
  have e: "get_all_users [(''u1'', alice), (''u2'', bob)] 1 5 = Inr [bob]"
    "get_all_users [(''u1'', alice), (''u2'', bob)] 0 1 = Inr [alice]"
    "get_all_users [(''u1'', alice), (''u2'', bob)] 1 2 = Inr [bob]"
    "get_all_users [(''u1'', alice), (''u2'', bob)] 0 (1 + 2) = Inr [alice, bob]"
    "get_all_users [(''u1'', alice), (''u2'', bob)] 0 500 = Inl ValidationError"
    by (simp_all add: get_all_users_def slice_def dict_values_def)
  have i: "get_all_items [(''a'', widget), (''b'', gadget), (''c'', gizmo)] 1 5 (Some 10) None
     = Inr [gizmo]"
    "get_all_items [(''a'', widget), (''b'', gadget), (''c'', gizmo)] 0 1 (Some 10) None
     = Inr [gadget]"
    "get_all_items [(''a'', widget), (''b'', gadget), (''c'', gizmo)] 1 2 (Some 10) None
     = Inr [gizmo]"
    "get_all_items [(''a'', widget), (''b'', gadget), (''c'', gizmo)] 0 (1 + 2) (Some 10) None
     = Inr [gadget, gizmo]"
    by (simp_all add: get_all_items_def bound_ok_def and_then_def slice_def dict_values_def
        widget_def gadget_def gizmo_def)
  show ?thesis
    using e i pagination_within_declared_bounds [OF h, of "[(''u1'', alice), (''u2'', bob)]"]
    by simp
qed


section \<open>Search by email\<close>

lemma startswith_iff: "startswith s a \<longleftrightarrow> (\<exists>suf. s = a @ suf)"
  by (induction s a rule: startswith.induct) auto

lemma str_in_iff: "str_in a b \<longleftrightarrow> (\<exists>pre suf. b = pre @ a @ suf)"
proof (induction b)
  case Nil
  then show ?case by auto
next
  case (Cons c cs)
  show ?case
  proof
    assume "str_in a (c # cs)"
    then consider "startswith (c # cs) a" | "str_in a cs" by auto
    then show "\<exists>pre suf. c # cs = pre @ a @ suf"
    proof cases
      case 1
      then obtain suf where "c # cs = a @ suf" by (auto simp: startswith_iff)
      then have "c # cs = [] @ a @ suf" by simp
      then show ?thesis by blast
    next
      case 2
      then obtain pre suf where "cs = pre @ a @ suf" using Cons.IH by auto
      then have "c # cs = (c # pre) @ a @ suf" by simp
      then show ?thesis by blast
    qed
  next
    assume "\<exists>pre suf. c # cs = pre @ a @ suf"
    then obtain pre suf where e: "c # cs = pre @ a @ suf" by blast
    show "str_in a (c # cs)"
    proof (cases pre)
      case Nil
      then have "startswith (c # cs) a" using e startswith_iff by auto
      then show ?thesis by simp
    next
      case (Cons p ps)
      then have "cs = ps @ a @ suf" using e by simp
      then have "str_in a cs" using Cons.IH by blast
      then show ?thesis by simp
    qed
  qed
qed

lemma email_contains_ci_str_in:
  "email_contains_ci lower q u
     = (case email u of None \<Rightarrow> False | Some e \<Rightarrow> str_in (lower q) (lower e))"
  by (simp add: email_contains_ci_def str_in_iff split: option.splits)

lemma email_matches_filter:
  "list_all (\<lambda>u. email u \<noteq> None) us \<Longrightarrow>
     email_matches lower q us = Inr (filter (email_contains_ci lower q) us)"
  by (induction us) (auto simp: and_then_def email_contains_ci_str_in)

text \<open>
  On a store whose users carry an email, the search returns, in insertion order and with
  no window, exactly the stored users whose lowered email contains the lowered search
  string.
\<close>

lemma search_on_users_with_email:
  assumes "all_have_email db"
  shows "search_users_by_email lower db q = Inr (filter (email_contains_ci lower q) (dict_values db))"
  using assms by (simp add: search_users_by_email_def all_have_email_def email_matches_filter)

text \<open>
  C9. The claim: on every state of the user collection the search returns the users
  whose email contains the search string, case ignored. The code: after a user is
  created the search finds it, whatever the case of the letters; after an update that
  gives the email as \<^verbatim>\<open>null\<close>, which the update schema accepts and \<^verbatim>\<open>setattr\<close>
  stores, the same search raises \<^verbatim>\<open>AttributeError\<close> on \<^verbatim>\<open>user.email.lower()\<close>.
\<close>

theorem search_raises_after_null_email:
  "fst (run env0 [Create_user carol, Search_users_by_email ''CAROL''] initial)
     = [Inr (User_reply (carol\<lparr>id_u := Some ''x'', created_at_u := Some 1000\<rparr>)),
        Inr (Users_reply [carol\<lparr>id_u := Some ''x'', created_at_u := Some 1000\<rparr>])] \<and>
   fst (run env0 [Create_user carol,
                  Update_user ''x'' (no_user_change\<lparr>email_upd := Given None\<rparr>),
                  Search_users_by_email ''CAROL''] initial)
     = [Inr (User_reply (carol\<lparr>id_u := Some ''x'', created_at_u := Some 1000\<rparr>)),
        Inr (User_reply (carol\<lparr>id_u := Some ''x'', email := None, created_at_u := Some 1000\<rparr>)),
        Inl AttributeError]"
proof -
  have l: "ascii_lower ''CAROL'' = ''carol''"
    "ascii_lower ''Carol@example.com'' = ''carol@example.com''"
    by code_simp+
  show ?thesis
    by (simp add: serve_def on_users_def reading_def create_user_def update_user_def
        search_users_by_email_def and_then_def UserUpdate_valid_def User_valid_def
        optional_def required_def name_ok_def age_ok_def has_at_def dict_get_def
        dict_values_def apply_user_update_def setattr_given_def no_user_change_def env0_def
        growing_id_def initial_def carol_def Let_def l)
qed


section \<open>Updates and object identity\<close>

lemma update_item_ref_Inr:
  "update_item_ref s k upd = Inr (r, s') \<Longrightarrow>
     dict_get (items_refs s) k = Some r \<and>
     s' = s\<lparr>objects := (objects s)(r := apply_item_update (objects s r) upd),
            items_refs := dict_set (items_refs s) k r\<rparr>"
  by (auto simp: update_item_ref_def split: if_splits option.splits)

lemma map_of_read_back:
  "map_of (map (\<lambda>p. (fst p, f (snd p))) refs) k = map_option f (map_of refs k)"
  by (induction refs) auto

lemma items_of_get:
  "dict_get (items_of s) k = map_option (objects s) (dict_get (items_refs s) k)"
  by (simp add: items_of_def dict_get_def map_of_read_back)

lemma map_unchanged_ref:
  "r \<notin> snd ` set refs \<Longrightarrow>
     map (\<lambda>p. (fst p, (f(r := v)) (snd p))) refs = map (\<lambda>p. (fst p, f (snd p))) refs"
  by (induction refs) auto

lemma write_through_is_dict_set:
  "dict_get refs k = Some r \<Longrightarrow> distinct (map snd refs) \<Longrightarrow>
     map (\<lambda>p. (fst p, (f(r := v)) (snd p))) refs
       = dict_set (map (\<lambda>p. (fst p, f (snd p))) refs) k v"
proof (induction refs)
  case Nil
  then show ?case by (simp add: dict_get_def)
next
  case (Cons p refs)
  show ?case
  proof (cases "fst p = k")
    case True
    then have "snd p = r" using Cons.prems(1) by (simp add: dict_get_def)
    then have "r \<notin> snd ` set refs" using Cons.prems(2) by auto
    then have m: "map (\<lambda>p. (fst p, (f(r := v)) (snd p))) refs = map (\<lambda>p. (fst p, f (snd p))) refs"
      by (rule map_unchanged_ref)
    have "map (\<lambda>p. (fst p, (f(r := v)) (snd p))) (p # refs)
        = (k, v) # map (\<lambda>p. (fst p, (f(r := v)) (snd p))) refs"
      using True \<open>snd p = r\<close> by simp
    also have "\<dots> = (k, v) # map (\<lambda>p. (fst p, f (snd p))) refs"
      by (simp only: m)
    also have "\<dots> = dict_set (map (\<lambda>p. (fst p, f (snd p))) (p # refs)) k v"
      using True by simp
    finally show ?thesis .
  next
    case False
    then have g: "dict_get refs k = Some r" using Cons.prems(1) by (simp add: dict_get_def)
    then have "r \<in> snd ` set refs"
      by (metis dict_get_def map_of_SomeD snd_conv image_eqI)
    then have "snd p \<noteq> r" using Cons.prems(2) by auto
    then show ?thesis
      using False g Cons by simp
  qed
qed

text \<open>
  The dictionary of records and the store of references agree: when no object is stored
  under two identifiers, \<open>update_item\<close> on the records is \<open>update_item_ref\<close> on the
  objects, read back.
\<close>

lemma update_item_ref_refines:
  assumes "distinct (map snd (items_refs s))"
  shows "update_item (items_of s) k upd
           = (case update_item_ref s k upd of
                Inl e \<Rightarrow> Inl e
              | Inr (r, s') \<Rightarrow> Inr (objects s' r, items_of s'))"
proof (cases "ItemUpdate_valid upd")
  case False
  then show ?thesis by (simp add: update_item_def update_item_ref_def)
next
  case True
  show ?thesis
  proof (cases "dict_get (items_refs s) k")
    case None
    then show ?thesis
      using True by (simp add: update_item_def update_item_ref_def items_of_get)
  next
    case (Some r)
    have same: "dict_set (items_refs s) k r = items_refs s"
      using Some by (rule dict_set_same_value)
    have "items_of (s\<lparr>objects := (objects s)(r := apply_item_update (objects s r) upd),
                      items_refs := dict_set (items_refs s) k r\<rparr>)
            = dict_set (items_of s) k (apply_item_update (objects s r) upd)"
      using write_through_is_dict_set [OF Some assms] same by (simp add: items_of_def)
    then show ?thesis
      using True Some by (simp add: update_item_def update_item_ref_def items_of_get Let_def)
  qed
qed

text \<open>
  C10, as stated, fails: \<open>update_item\<close> assigns the fields on the object the dictionary
  holds. The reference \<open>0\<close> that \<open>get_item\<close> returns before the update reads price 5
  before it and price 7 after it.
\<close>

theorem update_mutates_the_stored_object:
  "get_item_ref \<lparr>objects = (\<lambda>r. widget), items_refs = [(''a'', 0)]\<rparr> ''a'' = Inr 0 \<and>
   price (objects \<lparr>objects = (\<lambda>r. widget), items_refs = [(''a'', 0)]\<rparr> 0) = Some 5 \<and>
   update_item_ref \<lparr>objects = (\<lambda>r. widget), items_refs = [(''a'', 0)]\<rparr> ''a''
       (no_item_change\<lparr>price_upd := Given (Some 7)\<rparr>)
     = Inr (0, \<lparr>objects = (\<lambda>r. widget)(0 := widget\<lparr>price := Some 7\<rparr>),
                items_refs = [(''a'', 0)]\<rparr>) \<and>
   price (objects \<lparr>objects = (\<lambda>r. widget)(0 := widget\<lparr>price := Some 7\<rparr>),
                   items_refs = [(''a'', 0)]\<rparr> 0) = Some 7"
  by (simp add: get_item_ref_def update_item_ref_def dict_get_def ItemUpdate_valid_def
      optional_def price_ok_def apply_item_update_def setattr_given_def no_item_change_def
      widget_def)

text \<open>
  C10, amended. A successful update assigns the given fields on the stored object itself
  and returns that same object: the reference a get returned before the update is the
  reference the update returns and the one a get returns afterwards, the object behind
  it now holds the merged record, no other object changes and the dictionary holds the
  same references.
\<close>

theorem update_writes_through_the_stored_reference:
  assumes "update_item_ref s k upd = Inr (r, s')"
  shows "get_item_ref s k = Inr r \<and> get_item_ref s' k = Inr r \<and>
         objects s' r = apply_item_update (objects s r) upd \<and>
         (\<forall>r'. r' \<noteq> r \<longrightarrow> objects s' r' = objects s r') \<and>
         items_refs s' = items_refs s"
proof -
  from assms have g: "dict_get (items_refs s) k = Some r"
    and s': "s' = s\<lparr>objects := (objects s)(r := apply_item_update (objects s r) upd),
                    items_refs := dict_set (items_refs s) k r\<rparr>"
    using update_item_ref_Inr by blast+
  have refs: "items_refs s' = items_refs s"
    using s' g by (simp add: dict_set_same_value)
  have "get_item_ref s k = Inr r" "get_item_ref s' k = Inr r"
    using g refs by (simp_all add: get_item_ref_def)
  moreover have "objects s' r = apply_item_update (objects s r) upd"
    "\<forall>r'. r' \<noteq> r \<longrightarrow> objects s' r' = objects s r'"
    using s' by simp_all
  ultimately show ?thesis using refs by blast
qed

theorem update_writes_through_the_stored_reference_witness:
  "update_item_ref \<lparr>objects = (\<lambda>r. widget)(1 := gadget), items_refs = [(''a'', 0), (''b'', 1)]\<rparr>
       ''b'' (no_item_change\<lparr>quantity_upd := Given (Some 9)\<rparr>)
     = Inr (1, \<lparr>objects = (\<lambda>r. widget)(1 := gadget\<lparr>quantity := Some 9\<rparr>),
                items_refs = [(''a'', 0), (''b'', 1)]\<rparr>) \<and>
   get_item_ref \<lparr>objects = (\<lambda>r. widget)(1 := gadget), items_refs = [(''a'', 0), (''b'', 1)]\<rparr> ''b''
     = Inr 1 \<and>
   get_item_ref \<lparr>objects = (\<lambda>r. widget)(1 := gadget\<lparr>quantity := Some 9\<rparr>),
                 items_refs = [(''a'', 0), (''b'', 1)]\<rparr> ''b'' = Inr 1"
proof -
  have e: "update_item_ref \<lparr>objects = (\<lambda>r. widget)(1 := gadget), items_refs = [(''a'', 0), (''b'', 1)]\<rparr>
       ''b'' (no_item_change\<lparr>quantity_upd := Given (Some 9)\<rparr>)
     = Inr (1, \<lparr>objects = (\<lambda>r. widget)(1 := gadget\<lparr>quantity := Some 9\<rparr>),
                items_refs = [(''a'', 0), (''b'', 1)]\<rparr>)"
    by (simp add: update_item_ref_def dict_get_def ItemUpdate_valid_def optional_def
        quantity_ok_def apply_item_update_def setattr_given_def no_item_change_def gadget_def)
  have g: "get_item_ref \<lparr>objects = (\<lambda>r. widget)(1 := gadget), items_refs = [(''a'', 0), (''b'', 1)]\<rparr> ''b''
     = Inr 1"
    "get_item_ref \<lparr>objects = (\<lambda>r. widget)(1 := gadget\<lparr>quantity := Some 9\<rparr>),
                 items_refs = [(''a'', 0), (''b'', 1)]\<rparr> ''b'' = Inr 1"
    by (simp_all add: get_item_ref_def dict_get_def)
  show ?thesis
    using e g update_writes_through_the_stored_reference [OF e] by blast
qed


section \<open>Identifiers over a run\<close>











section \<open>The rendering of identifiers\<close>




















section \<open>Validation of updates\<close>

lemma optional_iff:
  "optional ok f = (\<forall>v. f = Given (Some v) \<longrightarrow> ok v)"
  by (cases f) (auto simp: optional_def split: option.splits)

text \<open>
  An update is answered with a validation error exactly when a field is given a value
  that breaks its constraint, and then nothing is assigned.
\<close>

lemma update_user_rejects_exactly_bad_values:
  "update_user ie db k upd = Inl ValidationError \<longleftrightarrow>
     (\<exists>v. name_upd upd = Given (Some v) \<and> \<not> name_ok v) \<or>
     (\<exists>v. email_upd upd = Given (Some v) \<and> \<not> ie v) \<or>
     (\<exists>v. age_upd upd = Given (Some v) \<and> \<not> age_ok v)"
  by (auto simp: update_user_def UserUpdate_valid_def optional_iff Let_def split: option.splits)

lemma update_item_rejects_exactly_bad_values:
  "update_item db k upd = Inl ValidationError \<longleftrightarrow>
     (\<exists>v. title_upd upd = Given (Some v) \<and> \<not> title_ok v) \<or>
     (\<exists>v. price_upd upd = Given (Some v) \<and> \<not> price_ok v) \<or>
     (\<exists>v. quantity_upd upd = Given (Some v) \<and> \<not> quantity_ok v)"
  by (auto simp: update_item_def ItemUpdate_valid_def optional_iff Let_def split: option.splits)

lemma failed_update_changes_nothing:
  "handle E (Update_user k uupd) st = (Inl e, st') \<Longrightarrow> st' = st"
  "handle E (Update_item k iupd) st = (Inl e, st') \<Longrightarrow> st' = st"
  by (auto simp: on_users_def on_items_def split: sum.splits prod.splits)

text \<open>
  With no field given as \<^verbatim>\<open>null\<close>, an accepted update of a valid record leaves a valid
  record.
\<close>

lemma update_user_keeps_valid:
  assumes "update_user ie db k upd = Inr (u', db')" "dict_get db k = Some u" "User_valid ie u"
    "name_upd upd \<noteq> Given None" "email_upd upd \<noteq> Given None" "age_upd upd \<noteq> Given None"
  shows "User_valid ie u'"
proof -
  have v: "UserUpdate_valid ie upd" and u': "u' = apply_user_update u upd"
    using assms(1,2) by (auto simp: update_user_def Let_def split: if_splits)
  have "required name_ok (name u')"
    using v u' assms(3,4)
    by (cases "name_upd upd")
       (auto simp: UserUpdate_valid_def User_valid_def optional_def required_def
          apply_user_update_def setattr_given_def split: option.splits)
  moreover have "required ie (email u')"
    using v u' assms(3,5)
    by (cases "email_upd upd")
       (auto simp: UserUpdate_valid_def User_valid_def optional_def required_def
          apply_user_update_def setattr_given_def split: option.splits)
  moreover have "required age_ok (age u')"
    using v u' assms(3,6)
    by (cases "age_upd upd")
       (auto simp: UserUpdate_valid_def User_valid_def optional_def required_def
          apply_user_update_def setattr_given_def split: option.splits)
  ultimately show ?thesis by (simp add: User_valid_def)
qed

lemma update_item_keeps_valid:
  assumes "update_item db k upd = Inr (it', db')" "dict_get db k = Some it" "Item_valid it"
    "title_upd upd \<noteq> Given None" "price_upd upd \<noteq> Given None" "quantity_upd upd \<noteq> Given None"
  shows "Item_valid it'"
proof -
  have v: "ItemUpdate_valid upd" and it': "it' = apply_item_update it upd"
    using assms(1,2) by (auto simp: update_item_def Let_def split: if_splits)
  have "required title_ok (title it')"
    using v it' assms(3,4)
    by (cases "title_upd upd")
       (auto simp: ItemUpdate_valid_def Item_valid_def optional_def required_def
          apply_item_update_def setattr_given_def split: option.splits)
  moreover have "required price_ok (price it')"
    using v it' assms(3,5)
    by (cases "price_upd upd")
       (auto simp: ItemUpdate_valid_def Item_valid_def optional_def required_def
          apply_item_update_def setattr_given_def split: option.splits)
  moreover have "required quantity_ok (quantity it')"
    using v it' assms(3,6)
    by (cases "quantity_upd upd")
       (auto simp: ItemUpdate_valid_def Item_valid_def optional_def required_def
          apply_item_update_def setattr_given_def split: option.splits)
  ultimately show ?thesis by (simp add: Item_valid_def)
qed

text \<open>
  C4. The claim: an update fails with a validation error exactly when a given field
  breaks the constraint it has at creation, and then nothing is stored. The code: a
  field given as \<^verbatim>\<open>null\<close> passes the update schema (every field of the update classes
  is \<^verbatim>\<open>Optional\<close>), is kept by \<^verbatim>\<open>model_dump(exclude_unset=True)\<close> and is assigned,
  although creation refuses the same value. Evaluated on the age of a user and the price
  of an item.
\<close>

theorem null_field_passes_update_validation:
  "update_user has_at [(''u2'', bob)] ''u2'' (no_user_change\<lparr>age_upd := Given None\<rparr>)
     = Inr (bob\<lparr>age := None\<rparr>, [(''u2'', bob\<lparr>age := None\<rparr>)]) \<and>
   create_user has_at ''n'' 7 [(''u2'', bob)] (bob\<lparr>age := None\<rparr>) = Inl ValidationError \<and>
   update_item [(''a'', widget)] ''a'' (no_item_change\<lparr>price_upd := Given None\<rparr>)
     = Inr (widget\<lparr>price := None\<rparr>, [(''a'', widget\<lparr>price := None\<rparr>)]) \<and>
   create_item ''n'' 7 [(''a'', widget)] (widget\<lparr>price := None\<rparr>) = Inl ValidationError"
  by (simp add: update_user_def update_item_def create_user_def create_item_def
      UserUpdate_valid_def ItemUpdate_valid_def User_valid_def Item_valid_def optional_def
      required_def name_ok_def title_ok_def has_at_def dict_get_def apply_user_update_def
      apply_item_update_def setattr_given_def no_user_change_def no_item_change_def
      bob_def widget_def Let_def)

text \<open>
  C5. The claim: every stored record satisfies its field constraints, partial updates
  included. The code: after a valid user is created, an update that gives the name as
  \<^verbatim>\<open>null\<close> is accepted and leaves a stored user without a name, which the next get
  returns; the stored record no longer satisfies the constraints of \<^verbatim>\<open>class User\<close>.
  Likewise an item whose price was given as \<^verbatim>\<open>null\<close> makes a listing with a price
  bound raise.
\<close>

theorem null_update_breaks_record_invariant:
  "run env0 [Create_user alice, Update_user ''x'' (no_user_change\<lparr>name_upd := Given None\<rparr>),
             Get_user ''x''] initial
     = ([Inr (User_reply (alice\<lparr>id_u := Some ''x'', created_at_u := Some 1000\<rparr>)),
         Inr (User_reply (alice\<lparr>id_u := Some ''x'', name := None, created_at_u := Some 1000\<rparr>)),
         Inr (User_reply (alice\<lparr>id_u := Some ''x'', name := None, created_at_u := Some 1000\<rparr>))],
        \<lparr>users_db = [(''x'', alice\<lparr>id_u := Some ''x'', name := None, created_at_u := Some 1000\<rparr>)],
         items_db = [], served = 3\<rparr>) \<and>
   User_valid has_at (alice\<lparr>id_u := Some ''x'', created_at_u := Some 1000\<rparr>) \<and>
   \<not> User_valid has_at (alice\<lparr>id_u := Some ''x'', name := None, created_at_u := Some 1000\<rparr>) \<and>
   Item_valid widget \<and>
   update_item [(''a'', widget)] ''a'' (no_item_change\<lparr>price_upd := Given None\<rparr>)
     = Inr (widget\<lparr>price := None\<rparr>, [(''a'', widget\<lparr>price := None\<rparr>)]) \<and>
   \<not> Item_valid (widget\<lparr>price := None\<rparr>) \<and>
   get_all_items [(''a'', widget\<lparr>price := None\<rparr>)] 0 10 (Some 1) None = Inl TypeError"
  by (simp add: serve_def on_users_def reading_def create_user_def update_user_def get_user_def
      update_item_def get_all_items_def bound_ok_def and_then_def
      UserUpdate_valid_def ItemUpdate_valid_def User_valid_def Item_valid_def optional_def
      required_def name_ok_def age_ok_def title_ok_def price_ok_def quantity_ok_def has_at_def
      dict_get_def dict_values_def apply_user_update_def apply_item_update_def setattr_given_def
      no_user_change_def no_item_change_def env0_def growing_id_def initial_def
      alice_def widget_def Let_def)


section \<open>Statistics\<close>

lemma inventory_values_TypeError:
  "inventory_values ops its = Inl e \<Longrightarrow> e = TypeError"
  by (induction its arbitrary: e) (auto simp: and_then_def split: option.splits sum.splits)

lemma inventory_values_unpriced:
  "list_ex (\<lambda>it. price it = None) its \<Longrightarrow> inventory_values ops its = Inl TypeError"
proof (induction its)
  case Nil
  then show ?case by simp
next
  case (Cons it its)
  show ?case
  proof (cases "price it")
    case None
    then show ?thesis by simp
  next
    case (Some p)
    then have "inventory_values ops its = Inl TypeError" using Cons by simp
    then show ?thesis using Some by (simp add: and_then_def split: option.splits)
  qed
qed

text \<open>Whatever the float operations, a stored item without a price makes the statistics raise.\<close>

lemma statistics_raise_on_missing_price:
  "list_ex (\<lambda>it. price it = None) (dict_values idb) \<Longrightarrow>
     get_statistics ops t udb idb = Inl TypeError"
  by (simp add: get_statistics_def Let_def and_then_def inventory_values_unpriced)

text \<open>When the statistics return, the two totals are the sizes of the dictionaries.\<close>

lemma statistics_counts:
  "get_statistics ops t udb idb = Inr s \<Longrightarrow>
     users_total s = length udb \<and> items_total s = length idb"
  by (auto simp: get_statistics_def Let_def and_then_def split: sum.splits if_splits)

text \<open>With no item stored, the inventory value and the average price are 0.\<close>

lemma statistics_of_no_items:
  "get_statistics ops t udb []
     = Inr \<lparr>users_total = length udb, items_total = 0, total_inventory_value = 0,
            average_price = 0, timestamp = t\<rparr>"
  by (simp add: get_statistics_def and_then_def round_sum_def dict_values_def Let_def)

text \<open>
  On stored items that all carry a price and a quantity, the inventory value is the
  rounded float sum of the float products price times quantity, and the average price
  the rounded float quotient of the float sum of the prices by the number of items.
\<close>

lemma statistics_of_priced_items:
  assumes "inventory_values ops (dict_values idb) = Inr vs" "item_prices (dict_values idb) = Inr ps"
    "idb \<noteq> []"
  shows "get_statistics ops t udb idb
     = Inr \<lparr>users_total = length udb, items_total = length idb,
            total_inventory_value = round2 ops (py_sum ops vs),
            average_price = round2 ops (fdiv_int ops (py_sum ops ps) (int (length idb))),
            timestamp = t\<rparr>"
proof -
  have "vs \<noteq> []"
    using assms(1,3)
    by (cases idb) (auto simp: dict_values_def and_then_def split: option.splits sum.splits)
  then show ?thesis
    using assms by (simp add: get_statistics_def and_then_def round_sum_def Let_def)
qed

lemma values_of_two_items:
  "inventory_values ops (dict_values two_items) = Inr [fmul_int ops 10 2, fmul_int ops 20 1]"
  "item_prices (dict_values two_items) = Inr [10, 20]"
  by (simp_all add: two_items_def dict_values_def and_then_def)

text \<open>
  The example of the specification: with float operations that are exact on the few
  values involved (as they are on floats: every value is a small integer), the items of
  price 10, quantity 2 and price 20, quantity 1 have the inventory value 40 and the
  average price 15.
\<close>

lemma statistics_of_two_items:
  assumes "fmul_int ops 10 2 = 20" "fmul_int ops 20 1 = 20" "fadd ops 0 20 = 20"
    "fadd ops 20 20 = 40" "fadd ops 0 10 = 10" "fadd ops 10 20 = 30" "fdiv_int ops 30 2 = 15"
    "round2 ops 40 = 40" "round2 ops 15 = 15"
  shows "get_statistics ops t udb two_items
     = Inr \<lparr>users_total = length udb, items_total = 2, total_inventory_value = 40,
            average_price = 15, timestamp = t\<rparr>"
proof -
  have n: "two_items \<noteq> []" "length two_items = 2" by (simp_all add: two_items_def)
  show ?thesis
    using statistics_of_priced_items [OF values_of_two_items n(1), where t = t and udb = udb]
      assms n(2)
    by (simp add: py_sum_def)
qed

lemma ideal_ops_exact:
  "fmul_int ideal_ops 10 2 = 20" "fmul_int ideal_ops 20 1 = 20" "fadd ideal_ops 0 20 = 20"
  "fadd ideal_ops 20 20 = 40" "fadd ideal_ops 0 10 = 10" "fadd ideal_ops 10 20 = 30"
  "fdiv_int ideal_ops 30 2 = 15" "round2 ideal_ops 40 = 40" "round2 ideal_ops 15 = 15"
  by (simp_all add: ideal_ops_def)

text \<open>
  C6. The claim: for every pair of collection states the statistics return the two
  counts, the inventory value and the average price. The code: on the empty store they
  return zeros and on the two items of the example 40 and 15, but after an item is
  created and its price is updated to \<^verbatim>\<open>null\<close>, which the update schema accepts and
  \<^verbatim>\<open>setattr\<close> stores, the product \<^verbatim>\<open>item.price * item.quantity\<close> raises
  \<^verbatim>\<open>TypeError\<close> and no statistics are returned.
\<close>

theorem statistics_raise_after_null_price:
  "get_statistics ideal_ops 2000 [] []
     = Inr \<lparr>users_total = 0, items_total = 0, total_inventory_value = 0,
            average_price = 0, timestamp = 2000\<rparr> \<and>
   get_statistics ideal_ops 2000 [(''u2'', bob)] two_items
     = Inr \<lparr>users_total = 1, items_total = 2, total_inventory_value = 40,
            average_price = 15, timestamp = 2000\<rparr> \<and>
   items_db (snd (run env0 [Create_item widget,
                            Update_item ''x'' (no_item_change\<lparr>price_upd := Given None\<rparr>)] initial))
     = [(''x'', widget\<lparr>id_i := Some ''x'', price := None, created_at_i := Some 1000\<rparr>)] \<and>
   get_statistics ideal_ops 2000 []
       [(''x'', widget\<lparr>id_i := Some ''x'', price := None, created_at_i := Some 1000\<rparr>)]
     = Inl TypeError"
proof -
  have a: "get_statistics ideal_ops 2000 [] []
     = Inr \<lparr>users_total = 0, items_total = 0, total_inventory_value = 0,
            average_price = 0, timestamp = 2000\<rparr>"
    using statistics_of_no_items [where ops = ideal_ops and t = 2000 and udb = "[]"] by simp
  have b: "get_statistics ideal_ops 2000 [(''u2'', bob)] two_items
     = Inr \<lparr>users_total = 1, items_total = 2, total_inventory_value = 40,
            average_price = 15, timestamp = 2000\<rparr>"
    using statistics_of_two_items [OF ideal_ops_exact, where t = 2000 and udb = "[(''u2'', bob)]"]
    by simp
  have c: "items_db (snd (run env0 [Create_item widget,
                            Update_item ''x'' (no_item_change\<lparr>price_upd := Given None\<rparr>)] initial))
     = [(''x'', widget\<lparr>id_i := Some ''x'', price := None, created_at_i := Some 1000\<rparr>)]"
    by (simp add: serve_def on_items_def create_item_def update_item_def ItemUpdate_valid_def
        Item_valid_def optional_def required_def title_ok_def price_ok_def quantity_ok_def
        dict_get_def apply_item_update_def setattr_given_def no_item_change_def env0_def
        growing_id_def initial_def widget_def Let_def)
  have d: "get_statistics ideal_ops 2000 []
       [(''x'', widget\<lparr>id_i := Some ''x'', price := None, created_at_i := Some 1000\<rparr>)]
     = Inl TypeError"
    by (rule statistics_raise_on_missing_price) (simp add: dict_values_def)
  show ?thesis using a b c d by blast
qed


end
